theory Spec2Isabelle
  imports Complex_Main "HOL-Library.Sublist"
begin

section \<open>Tensors and the TensorFlow primitives the sources call\<close>

text \<open>
  The sources build TensorFlow graphs over rank-4 image batches in NHWC layout.  A
  batch is a nested list \<open>[batch][height][width][channel]\<close>; float32 values are read as
  real numbers, so rounding, overflow and NaN propagation are outside the model (a mean
  over no element, which TensorFlow evaluates to NaN, is the error \<open>NotANumber\<close>).
  Every exception the Python can raise while it builds or runs the graph is a value of
  \<open>error\<close>.
\<close>

datatype error = ValueError | NameError | AssertionError | IndexError | NotANumber

type_synonym image = "real list list list"
type_synonym tensor = "real list list list list"

text \<open>Sequencing of steps that may raise: the first error ends the run.\<close>

definition bindE :: "error + 'a \<Rightarrow> ('a \<Rightarrow> error + 'b) \<Rightarrow> error + 'b" where
  "bindE m f = (case m of Inl e \<Rightarrow> Inl e | Inr x \<Rightarrow> f x)"

fun mapE :: "('a \<Rightarrow> error + 'b) \<Rightarrow> 'a list \<Rightarrow> error + 'b list" where
  "mapE f [] = Inr []"
| "mapE f (x # xs) =
     (case f x of Inl e \<Rightarrow> Inl e
      | Inr y \<Rightarrow> (case mapE f xs of Inl e \<Rightarrow> Inl e | Inr ys \<Rightarrow> Inr (y # ys)))"

text \<open>The static shape \<open>[B, H, W, C]\<close> of a batch, and what makes a nested list a tensor.\<close>

definition len_hd :: "'a list list \<Rightarrow> nat" where
  "len_hd xs = (case xs of [] \<Rightarrow> 0 | x # _ \<Rightarrow> length x)"

definition batch :: "tensor \<Rightarrow> nat" where
  "batch t = length t"

definition height :: "tensor \<Rightarrow> nat" where
  "height t = (case t of [] \<Rightarrow> 0 | im # _ \<Rightarrow> length im)"

definition width :: "tensor \<Rightarrow> nat" where
  "width t = (case t of [] \<Rightarrow> 0 | im # _ \<Rightarrow> len_hd im)"

definition channels :: "tensor \<Rightarrow> nat" where
  "channels t = (case t of [] \<Rightarrow> 0 | im # _ \<Rightarrow> (case im of [] \<Rightarrow> 0 | row # _ \<Rightarrow> len_hd row))"

definition dims :: "tensor \<Rightarrow> nat \<times> nat \<times> nat \<times> nat" where
  "dims t = (batch t, height t, width t, channels t)"

definition has_dims :: "tensor \<Rightarrow> nat \<Rightarrow> nat \<Rightarrow> nat \<Rightarrow> nat \<Rightarrow> bool" where
  "has_dims t b h w c \<longleftrightarrow>
     length t = b \<and> list_all (\<lambda>im. length im = h \<and>
       list_all (\<lambda>row. length row = w \<and> list_all (\<lambda>px. length px = c) row) im) t"

definition rect :: "tensor \<Rightarrow> bool" where
  "rect t \<longleftrightarrow> has_dims t (batch t) (height t) (width t) (channels t)"

subsection \<open>Average pooling\<close>

text \<open>
  \<open>tf.nn.avg_pool(value, ksize, strides, padding)\<close> on NHWC data: \<open>ksize\<close> and \<open>strides\<close>
  are lists of four integers whose batch and channel entries must be 1.  Along one
  spatial axis of length \<open>n\<close>, with window \<open>k\<close> and stride \<open>s\<close>, \<open>SAME\<close> padding gives
  \<open>ceil (n / s)\<close> outputs and pads \<open>max ((out - 1) * s + k - n) 0\<close> cells, half of them
  (rounded down) in front; \<open>VALID\<close> pads nothing.  Output cell \<open>o\<close> averages the cells
  of its window that lie inside the input: padding is not counted.
\<close>

datatype padding = SAME | VALID

definition out_size :: "padding \<Rightarrow> nat \<Rightarrow> nat \<Rightarrow> nat \<Rightarrow> nat" where
  "out_size p n k s =
     (case p of SAME \<Rightarrow> (n + s - 1) div s
      | VALID \<Rightarrow> (if n < k then 0 else (n - k) div s + 1))"

definition pad_before :: "padding \<Rightarrow> nat \<Rightarrow> nat \<Rightarrow> nat \<Rightarrow> nat" where
  "pad_before p n k s =
     (case p of SAME \<Rightarrow> (((out_size SAME n k s - 1) * s + k) - n) div 2
      | VALID \<Rightarrow> 0)"

definition window :: "padding \<Rightarrow> nat \<Rightarrow> nat \<Rightarrow> nat \<Rightarrow> nat \<Rightarrow> nat list" where
  "window p n k s oi = [oi * s - pad_before p n k s ..< min n (oi * s + k - pad_before p n k s)]"

definition avg_pool_image :: "image \<Rightarrow> nat \<Rightarrow> nat \<Rightarrow> nat \<Rightarrow> nat \<Rightarrow> padding \<Rightarrow> nat \<Rightarrow> image" where
  "avg_pool_image im kh kw sh sw p c =
     (let h = length im; w = len_hd im in
      map (\<lambda>i. map (\<lambda>j. map (\<lambda>ch.
             (\<Sum>r\<leftarrow>window p h kh sh i. \<Sum>q\<leftarrow>window p w kw sw j. im ! r ! q ! ch)
               / real (length (window p h kh sh i) * length (window p w kw sw j)))
             [0..<c])
           [0..<out_size p w kw sw])
         [0..<out_size p h kh sh])"

definition avg_pool :: "tensor \<Rightarrow> int list \<Rightarrow> int list \<Rightarrow> padding \<Rightarrow> error + tensor" where
  "avg_pool v ksize strides p =
     (case (ksize, strides) of
        ([kb, kh, kw, kc], [sb, sh, sw, sc]) \<Rightarrow>
          if kb \<noteq> 1 \<or> kc \<noteq> 1 \<or> sb \<noteq> 1 \<or> sc \<noteq> 1 then Inl ValueError
          else if kh \<le> 0 \<or> kw \<le> 0 \<or> sh \<le> 0 \<or> sw \<le> 0 then Inl ValueError
          else if p = VALID \<and> v \<noteq> [] \<and> (height v < nat kh \<or> width v < nat kw) then Inl ValueError
          else Inr (map (\<lambda>im. avg_pool_image im (nat kh) (nat kw) (nat sh) (nat sw) p (channels v)) v)
      | _ \<Rightarrow> Inl ValueError)"

text \<open>Python's \<open>n * xs\<close> on a list repeats the list \<open>n\<close> times.\<close>

definition py_repeat :: "nat \<Rightarrow> 'a list \<Rightarrow> 'a list" where
  "py_repeat n xs = concat (replicate n xs)"

subsection \<open>module.py: the spatial filter\<close>

text \<open>
  \<^verbatim>\<open>def average_filter(image, filter_size):
    return tf.nn.avg_pool(image, ksize=[1, filter_size, filter_size, 1],
                          strides=4*[1], padding='SAME')\<close>
  (evaluator.py and backup/add\_noise.py define the same function.)
\<close>

definition average_filter :: "tensor \<Rightarrow> int \<Rightarrow> error + tensor" where
  "average_filter img filter_size =
     avg_pool img [1, filter_size, filter_size, 1] (py_repeat 4 [1]) SAME"

subsection \<open>Slices, concatenation and broadcasting\<close>

text \<open>
  Python's \<open>xs[:n]\<close> and \<open>xs[n:]\<close>, on a list or on the batch axis of a tensor; a negative
  \<open>n\<close> counts from the end.
\<close>

definition slice_to :: "int \<Rightarrow> 'a list \<Rightarrow> 'a list" where
  "slice_to n xs = (if n < 0 then take (length xs - nat (- n)) xs else take (nat n) xs)"

definition slice_from :: "int \<Rightarrow> 'a list \<Rightarrow> 'a list" where
  "slice_from n xs = (if n < 0 then drop (length xs - nat (- n)) xs else drop (nat n) xs)"

text \<open>
  \<open>tf.concat([a, b], 3)\<close> joins the channel vectors pixel by pixel and raises unless the
  batch, height and width of its arguments agree.
\<close>

definition concat_channels :: "tensor \<Rightarrow> tensor \<Rightarrow> error + tensor" where
  "concat_channels a b =
     (if batch a = batch b \<and> height a = height b \<and> width a = width b
      then Inr (map2 (map2 (map2 (@))) a b) else Inl ValueError)"

text \<open>
  Elementwise arithmetic broadcasts: along each axis the two lengths agree, or one of
  them is 1 and its single entry is used against every entry of the other.
\<close>

definition bc :: "('a \<Rightarrow> 'b \<Rightarrow> error + 'c) \<Rightarrow> 'a list \<Rightarrow> 'b list \<Rightarrow> error + 'c list" where
  "bc f xs ys =
     (if length xs = length ys then mapE (\<lambda>(x, y). f x y) (zip xs ys)
      else if length xs = 1 then mapE (f (hd xs)) ys
      else if length ys = 1 then mapE (\<lambda>x. f x (hd ys)) xs
      else Inl ValueError)"

definition ew2 :: "(real \<Rightarrow> real \<Rightarrow> real) \<Rightarrow> tensor \<Rightarrow> tensor \<Rightarrow> error + tensor" where
  "ew2 f = bc (bc (bc (bc (\<lambda>x y. Inr (f x y)))))"

definition ew1 :: "(real \<Rightarrow> real) \<Rightarrow> tensor \<Rightarrow> tensor" where
  "ew1 f = map (map (map (map f)))"

definition tf_add :: "tensor \<Rightarrow> tensor \<Rightarrow> error + tensor" where
  "tf_add = ew2 (+)"

definition tf_sub :: "tensor \<Rightarrow> tensor \<Rightarrow> error + tensor" where
  "tf_sub = ew2 (-)"

definition tf_mul :: "tensor \<Rightarrow> tensor \<Rightarrow> error + tensor" where
  "tf_mul = ew2 (*)"

subsection \<open>Float32 arithmetic\<close>

text \<open>
  The tensors are float32.  An arithmetic operation on float32 numbers returns the
  float32 number nearest to the exact result, ties going to the even significand
  (IEEE 754 binary32: 24 significant bits, least normal exponent \<open>-126\<close> and subnormal
  numbers below it); a Python float is a binary64 number (53 bits, least normal
  exponent \<open>-1022\<close>).  \<open>rne\<close> rounds a real number to the nearest integer, ties to even;
  \<open>float_ulp p emin x\<close> is the distance between neighbouring numbers of precision \<open>p\<close>
  at \<open>x\<close>; \<open>round_float\<close> rounds to the nearest number of the format.  Overflow to
  infinity is left out: where rounding matters the operands are bounded by 2.
\<close>

definition rne :: "real \<Rightarrow> int" where
  "rne x = (let f = \<lfloor>x\<rfloor>; d = x - of_int f in
            if d < 1 / 2 then f else if 1 / 2 < d then f + 1 else if even f then f else f + 1)"

definition float_ulp :: "nat \<Rightarrow> int \<Rightarrow> real \<Rightarrow> real" where
  "float_ulp p emin x = 2 powr of_int (max \<lfloor>log 2 \<bar>x\<bar>\<rfloor> emin - int p + 1)"

definition round_float :: "nat \<Rightarrow> int \<Rightarrow> real \<Rightarrow> real" where
  "round_float p emin x =
     (if x = 0 then 0 else of_int (rne (x / float_ulp p emin x)) * float_ulp p emin x)"

definition fl32 :: "real \<Rightarrow> real" where
  "fl32 = round_float 24 (- 126)"

definition fl64 :: "real \<Rightarrow> real" where
  "fl64 = round_float 53 (- 1022)"

text \<open>Addition and multiplication of float32 tensors, with broadcasting.\<close>

definition tf_add32 :: "tensor \<Rightarrow> tensor \<Rightarrow> error + tensor" where
  "tf_add32 = ew2 (\<lambda>x y. fl32 (x + y))"

definition tf_mul32 :: "tensor \<Rightarrow> tensor \<Rightarrow> error + tensor" where
  "tf_mul32 = ew2 (\<lambda>x y. fl32 (x * y))"

text \<open>\<open>tf.add_n\<close> sums a non-empty list of tensors of one shape; it does not broadcast.\<close>

fun add_n :: "tensor list \<Rightarrow> error + tensor" where
  "add_n [] = Inl ValueError"
| "add_n [t] = Inr t"
| "add_n (t # ts) =
     bindE (add_n ts) (\<lambda>r. if dims t = dims r then tf_add t r else Inl ValueError)"

text \<open>\<open>v[:, None, None, None]\<close> turns a vector of per-example scalars into shape \<open>[B, 1, 1, 1]\<close>.\<close>

definition expand_dims3 :: "real list \<Rightarrow> tensor" where
  "expand_dims3 v = map (\<lambda>s. [[[s]]]) v"

subsection \<open>Reductions and activations\<close>

definition mean :: "real list \<Rightarrow> error + real" where
  "mean xs = (if xs = [] then Inl NotANumber else Inr (sum_list xs / real (length xs)))"

definition reduce_mean :: "tensor \<Rightarrow> error + real" where
  "reduce_mean t = mean (concat (concat (concat t)))"

text \<open>\<open>tf.reduce_mean(t, [1, 2, 3])\<close>: one mean per example.\<close>

definition reduce_mean_123 :: "tensor \<Rightarrow> error + real list" where
  "reduce_mean_123 t = mapE (\<lambda>im. mean (concat (concat im))) t"

text \<open>\<open>tf.reduce_mean(t, [1, 2])\<close>: one mean per example and channel.\<close>

definition reduce_mean_12 :: "tensor \<Rightarrow> error + real list list" where
  "reduce_mean_12 t =
     mapE (\<lambda>im. mapE (\<lambda>ch. mean (map (\<lambda>px. px ! ch) (concat im))) [0..<channels t]) t"

definition sigmoid :: "real \<Rightarrow> real" where
  "sigmoid x = 1 / (1 + exp (- x))"

definition relu :: "real \<Rightarrow> real" where
  "relu x = max x 0"

definition softmax :: "real list list \<Rightarrow> real list list" where
  "softmax logits = map (\<lambda>row. map (\<lambda>x. exp x / sum_list (map exp row)) row) logits"

definition clip_by_value :: "tensor \<Rightarrow> real \<Rightarrow> real \<Rightarrow> tensor" where
  "clip_by_value t lo hi = ew1 (\<lambda>x. min (max x lo) hi) t"

definition ones_like :: "tensor \<Rightarrow> tensor" where
  "ones_like t = ew1 (\<lambda>_. 1) t"

definition zeros_like :: "tensor \<Rightarrow> tensor" where
  "zeros_like t = ew1 (\<lambda>_. 0) t"

text \<open>
  \<open>tf.nn.sigmoid_cross_entropy_with_logits\<close>: for logit \<open>x\<close> and label \<open>z\<close> the loss
  \<open>max x 0 - x * z + ln (1 + exp (- |x|))\<close>; logits and labels must have one shape.
\<close>

definition sigmoid_cross_entropy_with_logits :: "tensor \<Rightarrow> tensor \<Rightarrow> error + tensor" where
  "sigmoid_cross_entropy_with_logits logits labels =
     (if dims logits = dims labels
      then ew2 (\<lambda>x z. max x 0 - x * z + ln (1 + exp (- \<bar>x\<bar>))) logits labels
      else Inl ValueError)"

text \<open>
  \<open>tf.pad(x, [[0, 0], [p, p], [p, p], [0, 0]], "REFLECT")\<close> mirrors \<open>p\<close> rows and columns
  around each border without repeating the border itself, and raises when \<open>p\<close> is not
  smaller than the axis.
\<close>

definition reflect_pad :: "nat \<Rightarrow> 'a list \<Rightarrow> error + 'a list" where
  "reflect_pad p xs =
     (if p = 0 then Inr xs
      else if p < length xs then Inr (rev (take p (drop 1 xs)) @ xs @ take p (drop 1 (rev xs)))
      else Inl ValueError)"

definition pad_reflect :: "tensor \<Rightarrow> nat \<Rightarrow> error + tensor" where
  "pad_reflect t p = mapE (\<lambda>im. bindE (mapE (reflect_pad p) im) (reflect_pad p)) t"

subsection \<open>Summaries\<close>

text \<open>
  \<open>tf.summary.image\<close> and \<open>tf.summary.scalar\<close> return a summary operation that records
  its argument for display; what they record is kept, nothing depends on it.
\<close>

datatype summary = ImageSummary string tensor nat | ScalarSummary string real

section \<open>Variable scopes and the layers of ops.py\<close>

text \<open>
  TensorFlow keeps the variables of a graph by name.  \<open>tf.variable_scope(name)\<close> extends
  the current scope's name by \<open>/name\<close> and inherits its reuse flag;
  \<open>reuse_variables()\<close> sets the flag for the rest of the block.  \<open>tf.get_variable\<close> with
  the flag off creates the variable and raises if the name exists already; with the flag
  on it returns the existing variable and raises if there is none.  A scope is passed
  down lexically, as the \<open>with\<close> blocks nest; the names created so far are the state of
  the build.  The values the variables hold when the graph runs are a function from
  names, a \<open>session\<close>.
\<close>

record scope =
  scope_name :: string
  scope_reuse :: bool

type_synonym var_store = "string list"
type_synonym session = "string \<Rightarrow> real list"
type_synonym 'a build = "var_store \<Rightarrow> error + 'a \<times> var_store"

definition returnB :: "'a \<Rightarrow> 'a build" where
  "returnB x = (\<lambda>vs. Inr (x, vs))"

definition failB :: "error \<Rightarrow> 'a build" where
  "failB e = (\<lambda>vs. Inl e)"

definition bindB :: "'a build \<Rightarrow> ('a \<Rightarrow> 'b build) \<Rightarrow> 'b build" where
  "bindB m f = (\<lambda>vs. case m vs of Inl e \<Rightarrow> Inl e | Inr (x, vs') \<Rightarrow> f x vs')"

definition liftB :: "error + 'a \<Rightarrow> 'a build" where
  "liftB r = (\<lambda>vs. case r of Inl e \<Rightarrow> Inl e | Inr x \<Rightarrow> Inr (x, vs))"

fun mapB :: "('a \<Rightarrow> 'b build) \<Rightarrow> 'a list \<Rightarrow> 'b list build" where
  "mapB f [] = returnB []"
| "mapB f (x # xs) = bindB (f x) (\<lambda>y. bindB (mapB f xs) (\<lambda>ys. returnB (y # ys)))"

definition root_scope :: scope where
  "root_scope = \<lparr>scope_name = [], scope_reuse = False\<rparr>"

definition scoped :: "scope \<Rightarrow> string \<Rightarrow> string" where
  "scoped sc n = (if scope_name sc = [] then n else scope_name sc @ ''/'' @ n)"

definition variable_scope :: "scope \<Rightarrow> string \<Rightarrow> scope" where
  "variable_scope sc n = \<lparr>scope_name = scoped sc n, scope_reuse = scope_reuse sc\<rparr>"

definition reuse_variables :: "scope \<Rightarrow> scope" where
  "reuse_variables sc = sc\<lparr>scope_reuse := True\<rparr>"

definition get_variable :: "scope \<Rightarrow> string \<Rightarrow> string build" where
  "get_variable sc n = (\<lambda>vs.
     if scope_reuse sc
     then (if scoped sc n \<in> set vs then Inr (scoped sc n, vs) else Inl ValueError)
     else (if scoped sc n \<in> set vs then Inl ValueError else Inr (scoped sc n, vs @ [scoped sc n])))"

text \<open>
  ops.py, which module.py imports its layers from, is not among the sources.  Each of
  its layer builders is a parameter: the names of the variables the builder gets in the
  scope of its \<open>name\<close> argument, and the function that computes the layer from the values
  of these variables and the arguments of the call (an argument the call leaves to its
  default is \<open>None\<close>).  \<open>lrelu\<close> has no variables.
\<close>

record ops =
  conv2d_vars :: "string list"
  conv2d_fn :: "real list list \<Rightarrow> tensor \<Rightarrow> int \<Rightarrow> nat option \<Rightarrow> nat option \<Rightarrow> padding option \<Rightarrow> error + tensor"
  deconv2d_vars :: "string list"
  deconv2d_fn :: "real list list \<Rightarrow> tensor \<Rightarrow> int \<Rightarrow> nat option \<Rightarrow> nat option \<Rightarrow> error + tensor"
  instance_norm_vars :: "string list"
  instance_norm_fn :: "real list list \<Rightarrow> tensor \<Rightarrow> error + tensor"
  linear_scope :: string
  linear_vars :: "string list"
  linear_fn :: "real list list \<Rightarrow> real list list \<Rightarrow> int \<Rightarrow> error + real list list"
  lrelu :: "tensor \<Rightarrow> tensor"

definition layer_variables :: "scope \<Rightarrow> string \<Rightarrow> string list \<Rightarrow> string list build" where
  "layer_variables sc name vars = mapB (get_variable (variable_scope sc name)) vars"

definition conv2d ::
  "ops \<Rightarrow> session \<Rightarrow> scope \<Rightarrow> tensor \<Rightarrow> int \<Rightarrow> nat option \<Rightarrow> nat option \<Rightarrow> padding option
     \<Rightarrow> string \<Rightarrow> tensor build" where
  "conv2d P \<theta> sc x output_dim ks s pad name =
     bindB (layer_variables sc name (conv2d_vars P))
       (\<lambda>ns. liftB (conv2d_fn P (map \<theta> ns) x output_dim ks s pad))"

definition deconv2d ::
  "ops \<Rightarrow> session \<Rightarrow> scope \<Rightarrow> tensor \<Rightarrow> int \<Rightarrow> nat option \<Rightarrow> nat option \<Rightarrow> string \<Rightarrow> tensor build" where
  "deconv2d P \<theta> sc x output_dim ks s name =
     bindB (layer_variables sc name (deconv2d_vars P))
       (\<lambda>ns. liftB (deconv2d_fn P (map \<theta> ns) x output_dim ks s))"

definition instance_norm :: "ops \<Rightarrow> session \<Rightarrow> scope \<Rightarrow> tensor \<Rightarrow> string \<Rightarrow> tensor build" where
  "instance_norm P \<theta> sc x name =
     bindB (layer_variables sc name (instance_norm_vars P))
       (\<lambda>ns. liftB (instance_norm_fn P (map \<theta> ns) x))"

definition linear :: "ops \<Rightarrow> session \<Rightarrow> scope \<Rightarrow> real list list \<Rightarrow> int \<Rightarrow> real list list build" where
  "linear P \<theta> sc x output_size =
     bindB (layer_variables sc (linear_scope P) (linear_vars P))
       (\<lambda>ns. liftB (linear_fn P (map \<theta> ns) x output_size))"

section \<open>module.py: the networks\<close>

text \<open>
  \<^verbatim>\<open>def discriminator(image, df_dim=16, ks=3, df_last_dim=1, reuse=False, name="discriminator"):
    with tf.variable_scope(name):
        if reuse:
            tf.get_variable_scope().reuse_variables()
        else:
            assert tf.get_variable_scope().reuse is False
        h0 = lrelu(conv2d(image, df_dim, ks=ks, name='d_h0_conv'))
        h1 = lrelu(instance_norm(conv2d(h0, df_dim*2, ks=ks, name='d_h1_conv'), 'd_bn1'))
        h2 = lrelu(instance_norm(conv2d(h1, df_dim*4, ks=ks, name='d_h2_conv'), 'd_bn2'))
        h4 = conv2d(h2, df_last_dim, ks=ks, s=1, name='d_h3_pred')
        return h4\<close>
\<close>

definition enter_scope :: "scope \<Rightarrow> string \<Rightarrow> bool \<Rightarrow> scope build" where
  "enter_scope outer name reuse =
     (let sc = variable_scope outer name in
      if reuse then returnB (reuse_variables sc)
      else if scope_reuse sc then failB AssertionError
      else returnB sc)"

definition discriminator ::
  "ops \<Rightarrow> session \<Rightarrow> scope \<Rightarrow> tensor \<Rightarrow> int \<Rightarrow> nat \<Rightarrow> int \<Rightarrow> bool \<Rightarrow> string \<Rightarrow> tensor build" where
  "discriminator P \<theta> outer img df_dim ks df_last_dim reuse name =
     bindB (enter_scope outer name reuse) (\<lambda>sc.
     bindB (conv2d P \<theta> sc img df_dim (Some ks) None None ''d_h0_conv'') (\<lambda>c0.
     let h0 = lrelu P c0 in
     bindB (conv2d P \<theta> sc h0 (df_dim * 2) (Some ks) None None ''d_h1_conv'') (\<lambda>c1.
     bindB (instance_norm P \<theta> sc c1 ''d_bn1'') (\<lambda>n1.
     let h1 = lrelu P n1 in
     bindB (conv2d P \<theta> sc h1 (df_dim * 4) (Some ks) None None ''d_h2_conv'') (\<lambda>c2.
     bindB (instance_norm P \<theta> sc c2 ''d_bn2'') (\<lambda>n2.
     let h2 = lrelu P n2 in
     conv2d P \<theta> sc h2 df_last_dim (Some ks) (Some 1) None ''d_h3_pred''))))))"

text \<open>
  \<^verbatim>\<open>def gate(image, df_dim=16, num_classes=2, reuse=False, name="gate"):
    with tf.variable_scope(name):
        (reuse as in discriminator)
        h0 = lrelu(conv2d(image, df_dim, name='d_h0_conv'))
        h1 = lrelu(instance_norm(conv2d(h0, df_dim*2, name='d_h1_conv'), 'd_bn1'))
        h2 = lrelu(instance_norm(conv2d(h1, df_dim*4, name='d_h2_conv'), 'd_bn2'))
        h4 = conv2d(h2, df_dim*4, s=1, name='d_h3_pred')
        global_pool = tf.reduce_mean(h4, [1, 2])
        logits = linear(global_pool, num_classes)
        probs = tf.nn.softmax(logits, name='softmax')
        return probs\<close>
\<close>

definition gate ::
  "ops \<Rightarrow> session \<Rightarrow> scope \<Rightarrow> tensor \<Rightarrow> int \<Rightarrow> int \<Rightarrow> bool \<Rightarrow> string \<Rightarrow> real list list build" where
  "gate P \<theta> outer img df_dim num_classes reuse name =
     bindB (enter_scope outer name reuse) (\<lambda>sc.
     bindB (conv2d P \<theta> sc img df_dim None None None ''d_h0_conv'') (\<lambda>c0.
     let h0 = lrelu P c0 in
     bindB (conv2d P \<theta> sc h0 (df_dim * 2) None None None ''d_h1_conv'') (\<lambda>c1.
     bindB (instance_norm P \<theta> sc c1 ''d_bn1'') (\<lambda>n1.
     let h1 = lrelu P n1 in
     bindB (conv2d P \<theta> sc h1 (df_dim * 4) None None None ''d_h2_conv'') (\<lambda>c2.
     bindB (instance_norm P \<theta> sc c2 ''d_bn2'') (\<lambda>n2.
     let h2 = lrelu P n2 in
     bindB (conv2d P \<theta> sc h2 (df_dim * 4) None (Some 1) None ''d_h3_pred'') (\<lambda>h4.
     bindB (liftB (reduce_mean_12 h4)) (\<lambda>global_pool.
     bindB (linear P \<theta> sc global_pool num_classes) (\<lambda>logits.
     returnB (softmax logits))))))))))"

text \<open>
  The \<open>OPTIONS\<close> named tuple of denoise.py.
\<close>

record options =
  gf_dim :: int
  df_dim :: int
  output_c_dim :: int
  is_training :: bool

text \<open>
  \<^verbatim>\<open>def residule_block(x, dim, ks=3, s=1, name='res'):
    p = int((ks - 1) / 2)
    y = tf.pad(x, [[0, 0], [p, p], [p, p], [0, 0]], "REFLECT")
    y = instance_norm(conv2d(y, dim, ks, s, padding='VALID', name=name+'_c1'), name+'_bn1')
    y = tf.pad(tf.nn.relu(y), [[0, 0], [p, p], [p, p], [0, 0]], "REFLECT")
    y = instance_norm(conv2d(y, dim, ks, s, padding='VALID', name=name+'_c2'), name+'_bn2')
    return y + x\<close>
\<close>

definition residule_block ::
  "ops \<Rightarrow> session \<Rightarrow> scope \<Rightarrow> tensor \<Rightarrow> int \<Rightarrow> nat \<Rightarrow> nat \<Rightarrow> string \<Rightarrow> tensor build" where
  "residule_block P \<theta> sc x dm ks s name =
     (let p = (ks - 1) div 2 in
      bindB (liftB (pad_reflect x p)) (\<lambda>y.
      bindB (conv2d P \<theta> sc y dm (Some ks) (Some s) (Some VALID) (name @ ''_c1'')) (\<lambda>y.
      bindB (instance_norm P \<theta> sc y (name @ ''_bn1'')) (\<lambda>y.
      bindB (liftB (pad_reflect (ew1 relu y) p)) (\<lambda>y.
      bindB (conv2d P \<theta> sc y dm (Some ks) (Some s) (Some VALID) (name @ ''_c2'')) (\<lambda>y.
      bindB (instance_norm P \<theta> sc y (name @ ''_bn2'')) (\<lambda>y.
      liftB (tf_add y x))))))))"

text \<open>
  One of the nine steps \<open>if res_depth >= k: rk = residule_block(r(k-1), ...); rn = rk\<close>
  of \<open>generator_resnet\<close>.  The Python variable \<open>r(k-1)\<close> exists only if the step before
  ran: it is an option, and reading it when it is not bound raises \<open>NameError\<close>.  The
  step returns the variable \<open>rk\<close> and the new value of \<open>rn\<close>.
\<close>

definition res_step ::
  "ops \<Rightarrow> session \<Rightarrow> scope \<Rightarrow> bool \<Rightarrow> tensor option \<Rightarrow> int \<Rightarrow> string \<Rightarrow> tensor
     \<Rightarrow> (tensor option \<times> tensor) build" where
  "res_step P \<theta> sc cond r_prev dm name rn =
     (if cond
      then (case r_prev of
              None \<Rightarrow> failB NameError
            | Some x \<Rightarrow> bindB (residule_block P \<theta> sc x dm 3 1 name) (\<lambda>r. returnB (Some r, r)))
      else returnB (None, rn))"

text \<open>
  \<^verbatim>\<open>def generator_resnet(image, options, res_depth=3, output_c_dim=1, reuse=False, name="generator"):
    with tf.variable_scope(name):
        (reuse as in discriminator)
        ks=3
        c1 = tf.nn.relu(instance_norm(conv2d(image, options.gf_dim*1, ks, 1, padding='SAME', name='g_e1_c'), 'g_e1_bn'))
        c2 = tf.nn.relu(instance_norm(conv2d(c1, options.gf_dim*2, 3, 2, name='g_e2_c'), 'g_e2_bn'))
        c3 = tf.nn.relu(instance_norm(conv2d(c2, options.gf_dim*4, 3, 2, name='g_e3_c'), 'g_e3_bn'))
        rn = c3
        if res_depth >= 1:
          r1 = residule_block(c3, options.gf_dim*4, name='g_r1')
          rn = r1
        if res_depth >= 2:
          r2 = residule_block(r1, options.gf_dim*4, name='g_r2')
          rn = r2
        ... (likewise for 3 to 8) ...
        if res_depth == 9:
          r9 = residule_block(r8, options.gf_dim*4, name='g_r9')
          rn = r9
        d1 = deconv2d(rn, options.gf_dim*2, 3, 2, name='g_d1_dc')
        d1 = c2 + tf.nn.relu(instance_norm(d1, 'g_d1_bn'))
        d2 = deconv2d(d1, options.gf_dim, 3, 2, name='g_d2_dc')
        d2 = c1 + tf.nn.relu(instance_norm(d2, 'g_d2_bn'))
        pred = tf.nn.tanh(conv2d(d2, output_c_dim, ks, 1, padding='SAME', name='g_pred_c'))
        pred = tf.clip_by_value(pred+image, -1., 1.)
        return pred\<close>
\<close>

definition generator_resnet ::
  "ops \<Rightarrow> session \<Rightarrow> scope \<Rightarrow> tensor \<Rightarrow> options \<Rightarrow> int \<Rightarrow> int \<Rightarrow> bool \<Rightarrow> string \<Rightarrow> tensor build" where
  "generator_resnet P \<theta> outer img opts res_depth out_c_dim reuse name =
     bindB (enter_scope outer name reuse) (\<lambda>sc.
     let ks = 3 in
     bindB (conv2d P \<theta> sc img (gf_dim opts * 1) (Some ks) (Some 1) (Some SAME) ''g_e1_c'') (\<lambda>a1.
     bindB (instance_norm P \<theta> sc a1 ''g_e1_bn'') (\<lambda>n1.
     let c1 = ew1 relu n1 in
     bindB (conv2d P \<theta> sc c1 (gf_dim opts * 2) (Some 3) (Some 2) None ''g_e2_c'') (\<lambda>a2.
     bindB (instance_norm P \<theta> sc a2 ''g_e2_bn'') (\<lambda>n2.
     let c2 = ew1 relu n2 in
     bindB (conv2d P \<theta> sc c2 (gf_dim opts * 4) (Some 3) (Some 2) None ''g_e3_c'') (\<lambda>a3.
     bindB (instance_norm P \<theta> sc a3 ''g_e3_bn'') (\<lambda>n3.
     let c3 = ew1 relu n3 in
     bindB (res_step P \<theta> sc (res_depth \<ge> 1) (Some c3) (gf_dim opts * 4) ''g_r1'' c3) (\<lambda>(r1, rn).
     bindB (res_step P \<theta> sc (res_depth \<ge> 2) r1 (gf_dim opts * 4) ''g_r2'' rn) (\<lambda>(r2, rn).
     bindB (res_step P \<theta> sc (res_depth \<ge> 3) r2 (gf_dim opts * 4) ''g_r3'' rn) (\<lambda>(r3, rn).
     bindB (res_step P \<theta> sc (res_depth \<ge> 4) r3 (gf_dim opts * 4) ''g_r4'' rn) (\<lambda>(r4, rn).
     bindB (res_step P \<theta> sc (res_depth \<ge> 5) r4 (gf_dim opts * 4) ''g_r5'' rn) (\<lambda>(r5, rn).
     bindB (res_step P \<theta> sc (res_depth \<ge> 6) r5 (gf_dim opts * 4) ''g_r6'' rn) (\<lambda>(r6, rn).
     bindB (res_step P \<theta> sc (res_depth \<ge> 7) r6 (gf_dim opts * 4) ''g_r7'' rn) (\<lambda>(r7, rn).
     bindB (res_step P \<theta> sc (res_depth \<ge> 8) r7 (gf_dim opts * 4) ''g_r8'' rn) (\<lambda>(r8, rn).
     bindB (res_step P \<theta> sc (res_depth = 9) r8 (gf_dim opts * 4) ''g_r9'' rn) (\<lambda>(r9, rn).
     bindB (deconv2d P \<theta> sc rn (gf_dim opts * 2) (Some 3) (Some 2) ''g_d1_dc'') (\<lambda>u1.
     bindB (instance_norm P \<theta> sc u1 ''g_d1_bn'') (\<lambda>m1.
     bindB (liftB (tf_add c2 (ew1 relu m1))) (\<lambda>d1.
     bindB (deconv2d P \<theta> sc d1 (gf_dim opts) (Some 3) (Some 2) ''g_d2_dc'') (\<lambda>u2.
     bindB (instance_norm P \<theta> sc u2 ''g_d2_bn'') (\<lambda>m2.
     bindB (liftB (tf_add c1 (ew1 relu m2))) (\<lambda>d2.
     bindB (conv2d P \<theta> sc d2 out_c_dim (Some ks) (Some 1) (Some SAME) ''g_pred_c'') (\<lambda>a.
     let pred = ew1 tanh a in
     bindB (liftB (tf_add pred img)) (\<lambda>s.
     returnB (clip_by_value s (- 1) 1)))))))))))))))))))))))))"

text \<open>
  \<^verbatim>\<open>def generator_separate_resnet(image, options, res_depth=3, reuse=False, name="generator"):
    image0 = generator_resnet(tf.expand_dims(image[:,:,:,0], -1), options, res_depth, 1, reuse, name)
    image1 = generator_resnet(tf.expand_dims(image[:,:,:,1], -1), options, res_depth, 1, True, name)
    image2 = generator_resnet(tf.expand_dims(image[:,:,:,2], -1), options, res_depth, 1, True, name)
    pred = tf.concat([image0, image1, image2], -1)
    return pred\<close>
  Taking channel \<open>i\<close> raises when the tensor has no such channel.
\<close>

definition channel :: "tensor \<Rightarrow> nat \<Rightarrow> error + tensor" where
  "channel t i = (if i < channels t then Inr (map (map (map (\<lambda>px. [px ! i]))) t) else Inl ValueError)"

definition generator_separate_resnet ::
  "ops \<Rightarrow> session \<Rightarrow> scope \<Rightarrow> tensor \<Rightarrow> options \<Rightarrow> int \<Rightarrow> bool \<Rightarrow> string \<Rightarrow> tensor build" where
  "generator_separate_resnet P \<theta> outer img opts res_depth reuse name =
     bindB (liftB (channel img 0)) (\<lambda>ch0.
     bindB (generator_resnet P \<theta> outer ch0 opts res_depth 1 reuse name) (\<lambda>image0.
     bindB (liftB (channel img 1)) (\<lambda>ch1.
     bindB (generator_resnet P \<theta> outer ch1 opts res_depth 1 True name) (\<lambda>image1.
     bindB (liftB (channel img 2)) (\<lambda>ch2.
     bindB (generator_resnet P \<theta> outer ch2 opts res_depth 1 True name) (\<lambda>image2.
     bindB (liftB (concat_channels image1 image2)) (\<lambda>t.
     liftB (concat_channels image0 t))))))))"

text \<open>
  \<^verbatim>\<open>def abs_criterion(in_, target, name=None):
    return tf.reduce_mean(tf.abs(in_ - target), name=name)
def mae_criterion(in_, target, name=None):
    return tf.reduce_mean((in_-target)**2, name=name)
def sce_criterion(logits, labels, name=None):
    return tf.reduce_mean(tf.nn.sigmoid_cross_entropy_with_logits(logits=logits, labels=labels), name=name)\<close>
\<close>

definition abs_criterion :: "tensor \<Rightarrow> tensor \<Rightarrow> error + real" where
  "abs_criterion in_t target = bindE (tf_sub in_t target) (\<lambda>d. reduce_mean (ew1 abs d))"

definition mae_criterion :: "tensor \<Rightarrow> tensor \<Rightarrow> error + real" where
  "mae_criterion in_t target = bindE (tf_sub in_t target) (\<lambda>d. reduce_mean (ew1 (\<lambda>x. x ^ 2) d))"

definition sce_criterion :: "tensor \<Rightarrow> tensor \<Rightarrow> error + real" where
  "sce_criterion logits labels =
     bindE (sigmoid_cross_entropy_with_logits logits labels) reduce_mean"

section \<open>denoise.py: the gated denoise pipeline\<close>

text \<open>The flags the pipeline and the noise injector read from \<open>FLAGS\<close>.\<close>

record flags =
  FLAGS_ngf :: int
  FLAGS_ndf :: int
  FLAGS_average_filter :: bool
  FLAGS_mixture_of_filters :: bool
  FLAGS_filter_size :: int
  FLAGS_denoise :: bool
  FLAGS_generator_separate_channel :: bool
  FLAGS_res_depth :: int
  FLAGS_denoise_loss_factor :: real
  FLAGS_denoise_discrim :: bool
  FLAGS_denoise_gan_loss_factor :: real
  FLAGS_discrim :: bool
  FLAGS_discrim_loss_factor :: real
  FLAGS_salt_pepper_noise :: bool
  FLAGS_ratio :: real
  FLAGS_gaussian_noise :: bool
  FLAGS_stddev :: real
  FLAGS_lowres :: bool
  FLAGS_snow :: bool

text \<open>The values denoise\_discrim\_train.py defines these flags with.\<close>

definition default_flags :: flags where
  "default_flags =
     \<lparr>FLAGS_ngf = 16, FLAGS_ndf = 16, FLAGS_average_filter = False,
      FLAGS_mixture_of_filters = False, FLAGS_filter_size = 3, FLAGS_denoise = False,
      FLAGS_generator_separate_channel = False, FLAGS_res_depth = 0,
      FLAGS_denoise_loss_factor = 1, FLAGS_denoise_discrim = False,
      FLAGS_denoise_gan_loss_factor = 1, FLAGS_discrim = False, FLAGS_discrim_loss_factor = 1,
      FLAGS_salt_pepper_noise = False, FLAGS_ratio = 1 / 10, FLAGS_gaussian_noise = False,
      FLAGS_stddev = 15 / 100, FLAGS_lowres = False, FLAGS_snow = False\<rparr>"

type_synonym losses = "string \<rightharpoonup> real"
type_synonym summaries = "string \<rightharpoonup> summary"

text \<open>
  A Python local that is assigned on some paths only is an option; reading it while it
  is unbound raises \<open>NameError\<close>.
\<close>

definition the_var :: "'a option \<Rightarrow> 'a build" where
  "the_var v = (case v of None \<Rightarrow> failB NameError | Some x \<Rightarrow> returnB x)"

text \<open>\<open>probs[:, k]\<close> takes column \<open>k\<close> of a matrix and raises when there is no such column.\<close>

definition column :: "real list list \<Rightarrow> nat \<Rightarrow> error + real list" where
  "column m k = (if list_all (\<lambda>row. k < length row) m then Inr (map (\<lambda>row. row ! k) m) else Inl ValueError)"

definition scale_examples :: "real list list \<Rightarrow> nat \<Rightarrow> tensor \<Rightarrow> error + tensor" where
  "scale_examples probs k t = bindE (column probs k) (\<lambda>c. tf_mul (expand_dims3 c) t)"

text \<open>
  The filter stage:
  \<^verbatim>\<open>  filtered_images = images
  if FLAGS.average_filter:
    if FLAGS.mixture_of_filters:
      with tf.variable_scope('filter_gate') as scope:
        filtered_images0 = average_filter(images, 2)
        filtered_images1 = average_filter(images, 3)
        filtered_images2 = average_filter(images, 4)
        probs = gate(images, FLAGS.ndf, num_classes=4, reuse=False, name='gate')
        activation_summary(probs)
        filtered_images = tf.add_n([probs[:,0,None,None,None]*images,
                                    probs[:,1,None,None,None]*filtered_images0,
                                    probs[:,2,None,None,None]*filtered_images1,
                                    probs[:,3,None,None,None]*filtered_images2])
    else:
      filtered_images = average_filter(images, FLAGS.filter_size)
    summaries_dict['filtered_noisy_images'] = tf.summary.image('filtered_noisy_images', filtered_images, max_outputs=1)
    if is_training:
      summaries_dict['filtered_clean_images'] = tf.summary.image('filtered_clean_images', filtered_images[noisy_batch_size:], max_outputs=1)\<close>
  \<open>activation_summary\<close> adds a histogram and a sparsity scalar to the graph's summary
  collection and returns nothing; no value of the pipeline depends on it.
\<close>

definition filtered_summaries :: "tensor \<Rightarrow> bool \<Rightarrow> int \<Rightarrow> summaries \<Rightarrow> summaries" where
  "filtered_summaries filtered_images training noisy_batch_size summaries_dict =
     (let s = summaries_dict(''filtered_noisy_images'' \<mapsto>
                ImageSummary ''filtered_noisy_images'' filtered_images 1)
      in if training
         then s(''filtered_clean_images'' \<mapsto>
                ImageSummary ''filtered_clean_images'' (slice_from noisy_batch_size filtered_images) 1)
         else s)"

definition gated_denoise_filter ::
  "ops \<Rightarrow> session \<Rightarrow> scope \<Rightarrow> tensor \<Rightarrow> flags \<Rightarrow> bool \<Rightarrow> int \<Rightarrow> summaries
     \<Rightarrow> (tensor \<times> summaries) build" where
  "gated_denoise_filter P \<theta> outer images F training noisy_batch_size summaries_dict =
     (if FLAGS_average_filter F then
        bindB
          (if FLAGS_mixture_of_filters F then
             bindB (liftB (average_filter images 2)) (\<lambda>filtered_images0.
             bindB (liftB (average_filter images 3)) (\<lambda>filtered_images1.
             bindB (liftB (average_filter images 4)) (\<lambda>filtered_images2.
             bindB (gate P \<theta> (variable_scope outer ''filter_gate'') images (FLAGS_ndf F) 4 False ''gate'') (\<lambda>probs.
             bindB (liftB (scale_examples probs 0 images)) (\<lambda>t0.
             bindB (liftB (scale_examples probs 1 filtered_images0)) (\<lambda>t1.
             bindB (liftB (scale_examples probs 2 filtered_images1)) (\<lambda>t2.
             bindB (liftB (scale_examples probs 3 filtered_images2)) (\<lambda>t3.
             liftB (add_n [t0, t1, t2, t3])))))))))
           else liftB (average_filter images (FLAGS_filter_size F)))
          (\<lambda>filtered_images.
             returnB (filtered_images,
               filtered_summaries filtered_images training noisy_batch_size summaries_dict))
      else returnB (images, summaries_dict))"

text \<open>
  The denoise stage:
  \<^verbatim>\<open>  if FLAGS.denoise:
    with tf.variable_scope('denoise') as scope:
      if FLAGS.generator_separate_channel:
        denoised_images = generator_separate_resnet(filtered_images, options, res_depth=FLAGS.res_depth, reuse=False, name='generator')
      else:
        denoised_images = generator_resnet(filtered_images, options, res_depth=FLAGS.res_depth, output_c_dim=3, reuse=False, name='generator')
      if is_training:
        denoise_sim_loss = abs_criterion(denoised_images[:noisy_batch_size], original_images, name='g_loss/sim_loss')
        g_loss = FLAGS.denoise_loss_factor * denoise_sim_loss
        losses_dict['g_loss'] = g_loss
        summaries_dict['g_loss/sim_loss'] = tf.summary.scalar('g_loss/sim_loss', denoise_sim_loss)
      if FLAGS.denoise_discrim:
        noisy_and_denoised = tf.concat([noisy_images, denoised_images], 3)
        d_denoised = discriminator(noisy_and_denoised, FLAGS.ndf, reuse=False, name='discriminator')
        if is_training:
          noisy_and_original = tf.concat([noisy_images, original_images], 3)
          d_original = discriminator(noisy_and_original, FLAGS.ndf, reuse=True,  name='discriminator')
          g_gan_loss = criterionGAN(d_denoised, tf.ones_like(d_denoised))
          summaries_dict['g_gan_loss'] = tf.summary.scalar('g_loss/g_gan_loss', g_gan_loss)
          g_loss += FLAGS.denoise_gan_loss_factor * g_gan_loss
          losses_dict['g_loss'] = g_loss
          d_loss_real = criterionGAN(d_original, tf.ones_like(d_original))
          d_loss_fake = criterionGAN(d_denoised, tf.zeros_like(d_denoised))
          d_loss = FLAGS.denoise_gan_loss_factor * (d_loss_real + d_loss_fake) / 2
          losses_dict['d_loss'] = d_loss
          summaries_dict['d_loss'] = tf.summary.scalar('d_loss', d_loss)
      if is_training:
        summaries_dict['g_loss'] = tf.summary.scalar('g_loss', g_loss)
    filtered_images = denoised_images
    summaries_dict['filtered_noisy_images'] = ...
    if is_training:
      summaries_dict['filtered_clean_images'] = ...\<close>
  with \<open>criterionGAN = mae_criterion\<close>.  \<open>noisy_images\<close> and \<open>original_images\<close> are bound
  only when \<open>is_training\<close> holds, \<open>g_loss\<close> only once the similarity loss is computed.
\<close>

definition denoise_sim ::
  "tensor \<Rightarrow> flags \<Rightarrow> bool \<Rightarrow> int \<Rightarrow> tensor option \<Rightarrow> losses \<Rightarrow> summaries
     \<Rightarrow> (real option \<times> losses \<times> summaries) build" where
  "denoise_sim denoised_images F training noisy_batch_size original_images losses_dict summaries_dict =
     (if training then
        bindB (the_var original_images) (\<lambda>original.
        bindB (liftB (abs_criterion (slice_to noisy_batch_size denoised_images) original)) (\<lambda>denoise_sim_loss.
        let g_loss = FLAGS_denoise_loss_factor F * denoise_sim_loss in
        returnB (Some g_loss, losses_dict(''g_loss'' \<mapsto> g_loss),
                 summaries_dict(''g_loss/sim_loss'' \<mapsto> ScalarSummary ''g_loss/sim_loss'' denoise_sim_loss))))
      else returnB (None, losses_dict, summaries_dict))"

definition denoise_adversary ::
  "ops \<Rightarrow> session \<Rightarrow> scope \<Rightarrow> tensor \<Rightarrow> flags \<Rightarrow> bool \<Rightarrow> tensor option \<Rightarrow> tensor option
     \<Rightarrow> real option \<Rightarrow> losses \<Rightarrow> summaries \<Rightarrow> (real option \<times> losses \<times> summaries) build" where
  "denoise_adversary P \<theta> sc denoised_images F training noisy_images original_images
       g_loss losses_dict summaries_dict =
     (if FLAGS_denoise_discrim F then
        bindB (the_var noisy_images) (\<lambda>noisy.
        bindB (liftB (concat_channels noisy denoised_images)) (\<lambda>noisy_and_denoised.
        bindB (discriminator P \<theta> sc noisy_and_denoised (FLAGS_ndf F) 3 1 False ''discriminator'') (\<lambda>d_denoised.
        if training then
          bindB (the_var original_images) (\<lambda>original.
          bindB (liftB (concat_channels noisy original)) (\<lambda>noisy_and_original.
          bindB (discriminator P \<theta> sc noisy_and_original (FLAGS_ndf F) 3 1 True ''discriminator'') (\<lambda>d_original.
          bindB (liftB (mae_criterion d_denoised (ones_like d_denoised))) (\<lambda>g_gan_loss.
          bindB (the_var g_loss) (\<lambda>g.
          let g_loss' = g + FLAGS_denoise_gan_loss_factor F * g_gan_loss in
          bindB (liftB (mae_criterion d_original (ones_like d_original))) (\<lambda>d_loss_real.
          bindB (liftB (mae_criterion d_denoised (zeros_like d_denoised))) (\<lambda>d_loss_fake.
          let d_loss = FLAGS_denoise_gan_loss_factor F * (d_loss_real + d_loss_fake) / 2 in
          returnB (Some g_loss',
                   losses_dict(''g_loss'' \<mapsto> g_loss', ''d_loss'' \<mapsto> d_loss),
                   summaries_dict(''g_gan_loss'' \<mapsto> ScalarSummary ''g_loss/g_gan_loss'' g_gan_loss,
                                  ''d_loss'' \<mapsto> ScalarSummary ''d_loss'' d_loss)))))))))
        else returnB (g_loss, losses_dict, summaries_dict))))
      else returnB (g_loss, losses_dict, summaries_dict))"

definition gated_denoise_denoise ::
  "ops \<Rightarrow> session \<Rightarrow> scope \<Rightarrow> tensor \<Rightarrow> flags \<Rightarrow> options \<Rightarrow> bool \<Rightarrow> int \<Rightarrow> tensor option
     \<Rightarrow> tensor option \<Rightarrow> losses \<Rightarrow> summaries \<Rightarrow> (tensor \<times> losses \<times> summaries) build" where
  "gated_denoise_denoise P \<theta> outer filtered_images F opts training noisy_batch_size
       noisy_images original_images losses_dict summaries_dict =
     (if FLAGS_denoise F then
        let sc = variable_scope outer ''denoise'' in
        bindB (if FLAGS_generator_separate_channel F
               then generator_separate_resnet P \<theta> sc filtered_images opts (FLAGS_res_depth F) False ''generator''
               else generator_resnet P \<theta> sc filtered_images opts (FLAGS_res_depth F) 3 False ''generator'')
          (\<lambda>denoised_images.
        bindB (denoise_sim denoised_images F training noisy_batch_size original_images
                 losses_dict summaries_dict) (\<lambda>(g_loss, losses_dict, summaries_dict).
        bindB (denoise_adversary P \<theta> sc denoised_images F training noisy_images original_images
                 g_loss losses_dict summaries_dict) (\<lambda>(g_loss, losses_dict, summaries_dict).
        bindB (if training
               then bindB (the_var g_loss) (\<lambda>g.
                      returnB (summaries_dict(''g_loss'' \<mapsto> ScalarSummary ''g_loss'' g)))
               else returnB summaries_dict) (\<lambda>summaries_dict.
        returnB (denoised_images, losses_dict,
                 filtered_summaries denoised_images training noisy_batch_size summaries_dict)))))
      else returnB (filtered_images, losses_dict, summaries_dict))"

text \<open>
  The gate stage:
  \<^verbatim>\<open>  if FLAGS.discrim:
    with tf.variable_scope('input_discrim') as scope:
      d_in_logits = discriminator(images, FLAGS.ndf, reuse=False, name='discriminator')
      if is_training:
        d_in_loss_real = criterionGAN2(d_in_logits[noisy_batch_size:],  tf.ones_like(d_in_logits[noisy_batch_size:]))
        d_in_loss_fake = criterionGAN2(d_in_logits[:noisy_batch_size], tf.zeros_like(d_in_logits[:noisy_batch_size]))
        d_in_loss = FLAGS.discrim_loss_factor * (d_in_loss_real + d_in_loss_fake) / 2
        losses_dict['d_in_loss'] = d_in_loss
        summaries_dict['d_in_loss'] = tf.summary.scalar('d_in_loss', d_in_loss)
      d_in_logits = tf.reduce_mean(d_in_logits, [1, 2, 3])
      d_in_sigmoid = tf.nn.sigmoid(d_in_logits, name='is_clean')
      activation_summary(d_in_sigmoid)
      images =  tf.add(d_in_sigmoid[:,None,None,None] * images,
                       (1 - d_in_sigmoid[:,None,None,None]) * filtered_images)
  else:
    images = filtered_images\<close>
  with \<open>criterionGAN2 = sce_criterion\<close>.  \<open>blend\<close> is the last assignment, as a function of
  the confidences: two float32 multiplications, one float32 subtraction and one float32
  addition for every pixel.  The confidence is the sigmoid of the pooled logit as a
  float32 number, taken here as the float32 number nearest to the exact sigmoid.
\<close>

definition blend :: "real list \<Rightarrow> tensor \<Rightarrow> tensor \<Rightarrow> error + tensor" where
  "blend d_in_sigmoid images filtered_images =
     bindE (tf_mul32 (expand_dims3 d_in_sigmoid) images) (\<lambda>a.
     bindE (tf_mul32 (ew1 (\<lambda>s. fl32 (1 - s)) (expand_dims3 d_in_sigmoid)) filtered_images) (\<lambda>b.
     tf_add32 a b))"

definition d_in_loss_of :: "tensor \<Rightarrow> flags \<Rightarrow> int \<Rightarrow> error + real" where
  "d_in_loss_of d_in_logits F noisy_batch_size =
     bindE (sce_criterion (slice_from noisy_batch_size d_in_logits)
              (ones_like (slice_from noisy_batch_size d_in_logits))) (\<lambda>d_in_loss_real.
     bindE (sce_criterion (slice_to noisy_batch_size d_in_logits)
              (zeros_like (slice_to noisy_batch_size d_in_logits))) (\<lambda>d_in_loss_fake.
     Inr (FLAGS_discrim_loss_factor F * (d_in_loss_real + d_in_loss_fake) / 2)))"

definition gated_denoise_gate ::
  "ops \<Rightarrow> session \<Rightarrow> scope \<Rightarrow> tensor \<Rightarrow> tensor \<Rightarrow> flags \<Rightarrow> bool \<Rightarrow> int \<Rightarrow> losses \<Rightarrow> summaries
     \<Rightarrow> (tensor \<times> losses \<times> summaries) build" where
  "gated_denoise_gate P \<theta> outer images filtered_images F training noisy_batch_size
       losses_dict summaries_dict =
     (if FLAGS_discrim F then
        bindB (discriminator P \<theta> (variable_scope outer ''input_discrim'') images (FLAGS_ndf F) 3 1
                 False ''discriminator'') (\<lambda>d_in_logits.
        bindB (if training
               then bindB (liftB (d_in_loss_of d_in_logits F noisy_batch_size)) (\<lambda>d_in_loss.
                      returnB (losses_dict(''d_in_loss'' \<mapsto> d_in_loss),
                               summaries_dict(''d_in_loss'' \<mapsto> ScalarSummary ''d_in_loss'' d_in_loss)))
               else returnB (losses_dict, summaries_dict)) (\<lambda>(losses_dict, summaries_dict).
        bindB (liftB (reduce_mean_123 d_in_logits)) (\<lambda>pooled.
        let d_in_sigmoid = map (\<lambda>z. fl32 (sigmoid z)) pooled in
        bindB (liftB (blend d_in_sigmoid images filtered_images)) (\<lambda>images.
        returnB (images, losses_dict, summaries_dict)))))
      else returnB (filtered_images, losses_dict, summaries_dict))"

text \<open>
  \<^verbatim>\<open>def gated_denoise(images, FLAGS, is_training=False, noisy_batch_size=1):
  losses_dict = {}
  summaries_dict = {}
  OPTIONS = namedtuple('OPTIONS', 'gf_dim df_dim output_c_dim is_training')
  options = OPTIONS._make((FLAGS.ngf, FLAGS.ndf, 3, is_training))
  criterionGAN = mae_criterion
  criterionGAN2 = sce_criterion
  if is_training:
    noisy_images = images[:noisy_batch_size]
    original_images = images[noisy_batch_size:]
  summaries_dict['prefiltered_noisy_images'] = tf.summary.image('prefiltered_noisy_images', images, max_outputs=1)
  if is_training:
    summaries_dict['prefiltered_clean_images'] = tf.summary.image('prefiltered_clean_images', images[noisy_batch_size:], max_outputs=1)
  (filter stage, denoise stage, gate stage)
  summaries_dict['preprocessed_noisy_images'] = tf.summary.image('preprocessed_noisy_images', images, max_outputs=1)
  if is_training:
    summaries_dict['preprocessed_clean_images'] = tf.summary.image('preprocessed_clean_images', images[noisy_batch_size:], max_outputs=1)
  return images, losses_dict, summaries_dict\<close>
  \<open>outer\<close> is the variable scope the caller is in.
\<close>

definition image_summaries :: "string \<Rightarrow> string \<Rightarrow> tensor \<Rightarrow> bool \<Rightarrow> int \<Rightarrow> summaries \<Rightarrow> summaries" where
  "image_summaries noisy_key clean_key images training noisy_batch_size summaries_dict =
     (let s = summaries_dict(noisy_key \<mapsto> ImageSummary noisy_key images 1)
      in if training
         then s(clean_key \<mapsto> ImageSummary clean_key (slice_from noisy_batch_size images) 1)
         else s)"

definition gated_denoise ::
  "ops \<Rightarrow> session \<Rightarrow> scope \<Rightarrow> tensor \<Rightarrow> flags \<Rightarrow> bool \<Rightarrow> int
     \<Rightarrow> (tensor \<times> losses \<times> summaries) build" where
  "gated_denoise P \<theta> outer images F training noisy_batch_size =
     (let losses_dict = Map.empty;
          opts = \<lparr>gf_dim = FLAGS_ngf F, df_dim = FLAGS_ndf F, output_c_dim = 3, is_training = training\<rparr>;
          noisy_images = (if training then Some (slice_to noisy_batch_size images) else None);
          original_images = (if training then Some (slice_from noisy_batch_size images) else None);
          summaries_dict = image_summaries ''prefiltered_noisy_images'' ''prefiltered_clean_images''
                             images training noisy_batch_size Map.empty
      in
      bindB (gated_denoise_filter P \<theta> outer images F training noisy_batch_size summaries_dict)
        (\<lambda>(filtered_images, summaries_dict).
      bindB (gated_denoise_denoise P \<theta> outer filtered_images F opts training noisy_batch_size
               noisy_images original_images losses_dict summaries_dict)
        (\<lambda>(filtered_images, losses_dict, summaries_dict).
      bindB (gated_denoise_gate P \<theta> outer images filtered_images F training noisy_batch_size
               losses_dict summaries_dict)
        (\<lambda>(images, losses_dict, summaries_dict).
      returnB (images, losses_dict,
               image_summaries ''preprocessed_noisy_images'' ''preprocessed_clean_images''
                 images training noisy_batch_size summaries_dict)))))"

section \<open>backup/add\_noise.py: the noise injector\<close>

text \<open>
  The random tensors are explicit arguments: \<open>u0\<close> is a uniform float32 draw from
  \<open>[0, 1)\<close>, so that \<open>tf.random_uniform([], maxval=ratio)\<close> is the float32 product of \<open>u0\<close>
  and the float32 value of \<open>ratio\<close>; \<open>u1\<close> and \<open>u2\<close> are the two draws
  \<open>tf.random_uniform(image_shape)\<close>, float32 tensors of the image's shape with entries in
  \<open>[0, 1)\<close>.  Every operation on a tensor is a float32 operation.  Without \<open>rand_ratio\<close>,
  \<open>1. - ratio\<close> is a subtraction of Python floats (binary64) whose result becomes a
  float32 constant when the tensor is added to it.
  \<^verbatim>\<open>def get_salt_pepper_noise_image(image, ratio=0.01, rand_ratio=False):
  image_shape = tf.shape(image)
  ratio = tf.random_uniform([], maxval=ratio) if rand_ratio else ratio
  random_tensor = 1. - ratio
  random_tensor += tf.random_uniform(image_shape)
  binary_tensor = tf.floor(random_tensor)
  random_tensor2 = tf.random_uniform(image_shape)
  image = (image + 1.)/2.
  noise_image = binary_tensor*image + (1.-binary_tensor)*random_tensor2
  noise_image = tf.clip_by_value(noise_image*2.-1, -1, 1)
  return noise_image\<close>
  (evaluator.py has the same function without the \<open>rand_ratio\<close> line.)
\<close>

definition get_salt_pepper_noise_image ::
  "tensor \<Rightarrow> real \<Rightarrow> bool \<Rightarrow> real \<Rightarrow> tensor \<Rightarrow> tensor \<Rightarrow> error + tensor" where
  "get_salt_pepper_noise_image img ratio rand_ratio u0 u1 u2 =
     (let one_minus_ratio = (if rand_ratio then fl32 (1 - fl32 (u0 * fl32 ratio))
                             else fl32 (fl64 (1 - ratio)));
          random_tensor = ew1 (\<lambda>u. fl32 (one_minus_ratio + u)) u1;
          binary_tensor = ew1 (\<lambda>x. of_int \<lfloor>x\<rfloor>) random_tensor;
          random_tensor2 = u2;
          img01 = ew1 (\<lambda>x. fl32 (fl32 (x + 1) / 2)) img
      in bindE (tf_mul32 binary_tensor img01) (\<lambda>kept.
         bindE (tf_mul32 (ew1 (\<lambda>b. fl32 (1 - b)) binary_tensor) random_tensor2) (\<lambda>replaced.
         bindE (tf_add32 kept replaced) (\<lambda>noise_image.
         Inr (clip_by_value (ew1 (\<lambda>x. fl32 (fl32 (x * 2) - 1)) noise_image) (- 1) 1)))))"

text \<open>
  \<open>t\<close> holds the standard truncated-normal draws, one per example, and \<open>z\<close> the standard
  normal draws of the image's shape; a vector \<open>sigma\<close> broadcasts against the last axis.
  \<^verbatim>\<open>def get_gaussian_noise_image(image, stddev=0.15, rand_stddev=False):
  if rand_stddev:
    sigma = tf.abs(tf.truncated_normal([num_batch], mean=0., stddev=stddev/2))
  else:
    sigma = stddev
  noise = tf.random_normal(image_shape, mean=0., stddev=sigma*2)
  noise_image = tf.clip_by_value(image + noise, -1, 1)
  return noise_image\<close>
\<close>

definition get_gaussian_noise_image ::
  "tensor \<Rightarrow> real \<Rightarrow> bool \<Rightarrow> real list \<Rightarrow> tensor \<Rightarrow> error + tensor" where
  "get_gaussian_noise_image img stddev rand_stddev t z =
     bindE (if rand_stddev
            then tf_mul z [[[map (\<lambda>d. \<bar>d * (stddev / 2)\<bar> * 2) t]]]
            else Inr (ew1 (\<lambda>n. n * (stddev * 2)) z)) (\<lambda>noise.
     bindE (tf_add img noise) (\<lambda>s.
     Inr (clip_by_value s (- 1) 1)))"

text \<open>
  \<^verbatim>\<open>def get_snow_image(image, sparsity=0.05):
  image_shape = image.get_shape().as_list()
  height = image_shape[1]
  width = image_shape[2]
  num_snows = int(height*width*sparsity/24)
  snow_rows = tf.random_uniform([num_snows], 0, height, dtype=tf.int32)
  snow_cols = tf.random_uniform([num_snows], 0, width, dtype=tf.int32)\<close>
  The function ends here, without a \<open>return\<close>: its value is Python's \<open>None\<close>.
\<close>

definition get_snow_image :: "tensor \<Rightarrow> real \<Rightarrow> tensor option" where
  "get_snow_image img sparsity =
     (let num_snows = \<lfloor>real (height img) * real (width img) * sparsity / 24\<rfloor>
      in None)"

text \<open>
  \<open>images\<close> is a Python list of image tensors.  \<open>tf.summary.image(name, xs[0])\<close> raises
  \<open>IndexError\<close> on an empty list and \<open>ValueError\<close> on \<open>None\<close>.  The low-resolution branch
  reads \<open>groundtruth_boxes_list\<close>, which add\_noise.py binds neither in \<open>add_noise\<close> nor
  at module level, before it calls \<open>get_mr_image\<close>.
  \<^verbatim>\<open>def add_noise(images):
  noisy_images = images
  if FLAGS.salt_pepper_noise:
    noisy_images = [get_salt_pepper_noise_image(image, ratio=FLAGS.ratio, rand_ratio=True)
                    for image in noisy_images]
    tf.summary.image('salt_pepper_noise_images', noisy_images[0])
  if FLAGS.gaussian_noise:
    noisy_images = [get_gaussian_noise_image(image, FLAGS.stddev, rand_stddev=False)
                    for image in noisy_images]
    tf.summary.image('gaussian_noise_images', noisy_images[0])
  if FLAGS.lowres:
    noisy_images = [get_mr_image(image, boxes) for (image, boxes)
                   in zip(noisy_images, groundtruth_boxes_list)]
    tf.summary.image('mixed_resolution_images', noisy_images[0])
  if FLAGS.snow:
    noisy_images = [get_snow_image(image) for image
                   in noisy_images]
    tf.summary.image('snow_images', noisy_images[0])
  return noisy_images\<close>
\<close>

definition summary_of_first :: "'a option list \<Rightarrow> error + unit" where
  "summary_of_first xs =
     (case xs of [] \<Rightarrow> Inl IndexError | None # _ \<Rightarrow> Inl ValueError | Some _ # _ \<Rightarrow> Inr ())"

definition add_noise ::
  "flags \<Rightarrow> (nat \<Rightarrow> real \<times> tensor \<times> tensor) \<Rightarrow> (nat \<Rightarrow> real list \<times> tensor) \<Rightarrow> tensor list
     \<Rightarrow> error + tensor option list" where
  "add_noise F uniform_draws normal_draws images =
     bindE (if FLAGS_salt_pepper_noise F then
              bindE (mapE (\<lambda>(i, img). case uniform_draws i of (u0, u1, u2) \<Rightarrow>
                             get_salt_pepper_noise_image img (FLAGS_ratio F) True u0 u1 u2)
                       (enumerate 0 images)) (\<lambda>noisy_images.
              bindE (summary_of_first (map Some noisy_images)) (\<lambda>_. Inr noisy_images))
            else Inr images) (\<lambda>noisy_images.
     bindE (if FLAGS_gaussian_noise F then
              bindE (mapE (\<lambda>(i, img). case normal_draws i of (t, z) \<Rightarrow>
                             get_gaussian_noise_image img (FLAGS_stddev F) False t z)
                       (enumerate 0 noisy_images)) (\<lambda>noisy_images.
              bindE (summary_of_first (map Some noisy_images)) (\<lambda>_. Inr noisy_images))
            else Inr noisy_images) (\<lambda>noisy_images.
     bindE (if FLAGS_lowres F then Inl NameError else Inr noisy_images) (\<lambda>noisy_images.
     if FLAGS_snow F then
       (let snowy = map (\<lambda>img. get_snow_image img (5 / 100)) noisy_images
        in bindE (summary_of_first snowy) (\<lambda>_. Inr snowy))
     else Inr (map Some noisy_images))))"

section \<open>A stand-in for ops.py\<close>

text \<open>
  To run the networks on concrete inputs the layer parameters need values.  In
  \<open>shape_ops\<close> every layer follows TensorFlow's shape rules (a convolution has window 4,
  stride 2 and \<open>SAME\<close> padding unless the call says otherwise, a transposed convolution
  multiplies height and width by its stride, normalisation keeps the shape) and reads
  its variables, but computes little: a convolution's output is constant, the sum of its
  weights.
\<close>

definition filled :: "nat \<Rightarrow> nat \<Rightarrow> nat \<Rightarrow> nat \<Rightarrow> real \<Rightarrow> tensor" where
  "filled b h w c v = replicate b (replicate h (replicate w (replicate c v)))"

definition shape_ops :: ops where
  "shape_ops =
     \<lparr>conv2d_vars = [''weights''],
      conv2d_fn = (\<lambda>ws x d ks s pad.
        let k = (case ks of None \<Rightarrow> 4 | Some k \<Rightarrow> k);
            st = (case s of None \<Rightarrow> 2 | Some st \<Rightarrow> st);
            p = (case pad of None \<Rightarrow> SAME | Some p \<Rightarrow> p)
        in if d \<le> 0 \<or> k = 0 \<or> st = 0 \<or> (p = VALID \<and> (height x < k \<or> width x < k))
           then Inl ValueError
           else Inr (filled (batch x) (out_size p (height x) k st) (out_size p (width x) k st)
                       (nat d) (sum_list (concat ws)))),
      deconv2d_vars = [''weights''],
      deconv2d_fn = (\<lambda>ws x d ks s.
        let st = (case s of None \<Rightarrow> 2 | Some st \<Rightarrow> st)
        in if d \<le> 0 then Inl ValueError
           else Inr (filled (batch x) (height x * st) (width x * st) (nat d) (sum_list (concat ws)))),
      instance_norm_vars = [''scale'', ''offset''],
      instance_norm_fn = (\<lambda>ws x. Inr x),
      linear_scope = ''Linear'',
      linear_vars = [''Matrix'', ''bias''],
      linear_fn = (\<lambda>ws x n. if n \<le> 0 then Inl ValueError else Inr (map (\<lambda>_. replicate (nat n) 0) x)),
      lrelu = ew1 (\<lambda>x. max x (x / 5))\<rparr>"

section \<open>What the shape proofs assume of the layers\<close>


text \<open>
  The layers of ops.py wrap TensorFlow's convolutions.  \<open>ops_shapes\<close> states the shape
  rules of these on a non-empty input: a convolution with window \<open>k\<close> and stride \<open>s\<close>
  keeps the batch, maps height and width by \<open>out_size\<close> (\<open>SAME\<close> padding when the call
  names none) and has the requested number of channels; a transposed convolution
  multiplies height and width by its stride; instance normalisation keeps the shape.
  \<open>ops_total\<close> states that the layers do not fail on a non-empty input they can be
  applied to, and that a layer does not ask for one variable name twice.
\<close>

definition pad_of :: "padding option \<Rightarrow> padding" where
  "pad_of p = (case p of None \<Rightarrow> SAME | Some q \<Rightarrow> q)"

definition ops_shapes :: "ops \<Rightarrow> bool" where
  "ops_shapes P \<longleftrightarrow>
     (\<forall>ws x d k s p y b h w c.
        has_dims x b h w c \<longrightarrow> 0 < b \<longrightarrow> 0 < h \<longrightarrow> 0 < w \<longrightarrow> 0 < c \<longrightarrow>
        conv2d_fn P ws x d (Some k) (Some s) p = Inr y \<longrightarrow>
        has_dims y b (out_size (pad_of p) h k s) (out_size (pad_of p) w k s) (nat d)) \<and>
     (\<forall>ws x d k s y b h w c.
        has_dims x b h w c \<longrightarrow> 0 < b \<longrightarrow> 0 < h \<longrightarrow> 0 < w \<longrightarrow> 0 < c \<longrightarrow>
        deconv2d_fn P ws x d (Some k) (Some s) = Inr y \<longrightarrow>
        has_dims y b (h * s) (w * s) (nat d)) \<and>
     (\<forall>ws x y b h w c.
        has_dims x b h w c \<longrightarrow> 0 < b \<longrightarrow> 0 < h \<longrightarrow> 0 < w \<longrightarrow> 0 < c \<longrightarrow>
        instance_norm_fn P ws x = Inr y \<longrightarrow> has_dims y b h w c)"

definition ops_total :: "ops \<Rightarrow> bool" where
  "ops_total P \<longleftrightarrow>
     distinct (conv2d_vars P) \<and> distinct (deconv2d_vars P) \<and> distinct (instance_norm_vars P) \<and>
     (\<forall>ws x d k s p b h w c.
        has_dims x b h w c \<longrightarrow> 0 < b \<longrightarrow> 0 < h \<longrightarrow> 0 < w \<longrightarrow> 0 < c \<longrightarrow> 0 < d \<longrightarrow> 0 < k \<longrightarrow> 0 < s \<longrightarrow>
        (pad_of p = VALID \<longrightarrow> k \<le> h \<and> k \<le> w) \<longrightarrow>
        (\<exists>y. conv2d_fn P ws x d (Some k) (Some s) p = Inr y)) \<and>
     (\<forall>ws x d k s b h w c.
        has_dims x b h w c \<longrightarrow> 0 < b \<longrightarrow> 0 < h \<longrightarrow> 0 < w \<longrightarrow> 0 < c \<longrightarrow> 0 < d \<longrightarrow> 0 < k \<longrightarrow> 0 < s \<longrightarrow>
        (\<exists>y. deconv2d_fn P ws x d (Some k) (Some s) = Inr y)) \<and>
     (\<forall>ws x b h w c.
        has_dims x b h w c \<longrightarrow> 0 < b \<longrightarrow> 0 < h \<longrightarrow> 0 < w \<longrightarrow> 0 < c \<longrightarrow>
        (\<exists>y. instance_norm_fn P ws x = Inr y))"

text \<open>
  \<open>layers_created sc L vs\<close>: of the layers directly below scope \<open>sc\<close>, only those named in
  \<open>L\<close> have variables in the store \<open>vs\<close>.
\<close>

definition layers_created :: "scope \<Rightarrow> string list \<Rightarrow> var_store \<Rightarrow> bool" where
  "layers_created sc L vs \<longleftrightarrow>
     (\<forall>l v. l \<noteq> [] \<longrightarrow> CHR ''/'' \<notin> set l \<longrightarrow> l \<notin> set L \<longrightarrow>
        scoped (variable_scope sc l) v \<notin> set vs)"



section \<open>The spatial filter keeps the resolution\<close>

text \<open>Shapes of nested lists: a tensor with given dimensions is rectangular.\<close>

lemma py_repeat_4: "py_repeat 4 [x] = [x, x, x, x]"
  by (simp add: py_repeat_def numeral_eq_Suc)

lemma out_size_same_1: "out_size SAME n k (Suc 0) = n"
  by (simp add: out_size_def)

lemma average_filter_eq:
  "average_filter img k =
     (if k \<le> 0 then Inl ValueError
      else Inr (map (\<lambda>im. avg_pool_image im (nat k) (nat k) 1 1 SAME (channels img)) img))"
  by (simp add: average_filter_def avg_pool_def py_repeat_4)

lemma has_dims_height:
  "has_dims t b h w c \<Longrightarrow> 0 < b \<Longrightarrow> height t = h"
  by (auto simp: has_dims_def height_def len_hd_def split: list.splits)

lemma has_dims_width:
  "has_dims t b h w c \<Longrightarrow> 0 < b \<Longrightarrow> 0 < h \<Longrightarrow> width t = w"
  by (auto simp: has_dims_def width_def len_hd_def split: list.splits)

lemma has_dims_channels:
  "has_dims t b h w c \<Longrightarrow> 0 < b \<Longrightarrow> 0 < h \<Longrightarrow> 0 < w \<Longrightarrow> channels t = c"
  by (auto simp: has_dims_def channels_def len_hd_def split: list.splits)

lemma dims_chain:
  "(batch t = 0 \<longrightarrow> height t = 0) \<and> (height t = 0 \<longrightarrow> width t = 0) \<and> (width t = 0 \<longrightarrow> channels t = 0)"
  by (auto simp: batch_def height_def width_def channels_def len_hd_def split: list.splits)

lemma has_dims_dims:
  "has_dims t b h w c \<Longrightarrow> (b = 0 \<longrightarrow> h = 0) \<Longrightarrow> (h = 0 \<longrightarrow> w = 0) \<Longrightarrow> (w = 0 \<longrightarrow> c = 0)
   \<Longrightarrow> dims t = (b, h, w, c)"
  apply (auto simp: dims_def has_dims_height has_dims_width has_dims_channels)
  apply (auto simp: has_dims_def batch_def height_def width_def channels_def len_hd_def split: list.splits)
  done

lemma has_dims_h0: "has_dims t b 0 w c \<Longrightarrow> has_dims t b 0 w' c'"
  by (auto simp: has_dims_def list_all_iff)

lemma has_dims_w0: "has_dims t b h 0 c \<Longrightarrow> has_dims t b h 0 c'"
  by (fastforce simp: has_dims_def list_all_iff)

lemma has_dims_b0: "has_dims t 0 h w c \<Longrightarrow> has_dims t 0 h' w' c'"
  by (auto simp: has_dims_def list_all_iff)

lemma has_dims_rect:
  assumes "has_dims t b h w c" shows "rect t"
proof -
  have b: "batch t = b" using assms by (simp add: has_dims_def batch_def)
  show ?thesis
  proof (cases "b = 0")
    case True
    then show ?thesis using assms b unfolding rect_def by (auto intro: has_dims_b0)
  next
    case b0: False
    then have h: "height t = h" using assms by (simp add: has_dims_height)
    show ?thesis
    proof (cases "h = 0")
      case True
      then show ?thesis using assms b h unfolding rect_def by (auto intro: has_dims_h0)
    next
      case h0: False
      then have w: "width t = w" using assms b0 by (simp add: has_dims_width)
      show ?thesis
      proof (cases "w = 0")
        case True
        then show ?thesis using assms b h w unfolding rect_def by (auto intro: has_dims_w0)
      next
        case False
        then have "channels t = c" using assms b0 h0 by (simp add: has_dims_channels)
        then show ?thesis using assms b h w unfolding rect_def by simp
      qed
    qed
  qed
qed

lemma rect_has_dims: "rect t \<Longrightarrow> dims t = (b, h, w, c) \<Longrightarrow> has_dims t b h w c"
  by (simp add: rect_def dims_def)

lemma window_same_1:
  "i < n \<Longrightarrow> window SAME n k (Suc 0) i = [i - (k - 1) div 2 ..< min n (i + k - (k - 1) div 2)]"
  by (simp add: window_def pad_before_def out_size_def)

lemma avg_pool_image_has_dims:
  assumes "has_dims t b h w c"
  shows "has_dims (map (\<lambda>im. avg_pool_image im k1 k2 (Suc 0) (Suc 0) SAME c) t) b h w c"
  using assms
  apply (auto simp: has_dims_def list_all_iff avg_pool_image_def Let_def out_size_def)
   apply (auto simp: len_hd_def split: list.splits)
  done

text \<open>
  C1 (as amended).  The strides argument \<open>4*[1]\<close> is the list \<open>[1, 1, 1, 1]\<close>, stride 1 on
  every axis, not stride 4.  For every rectangular image batch and every window size
  \<open>k \<ge> 1\<close> the filter succeeds, its output has exactly the batch, height, width and
  channel dimensions of its input, and the output pixel at \<open>(i, j)\<close> is the mean of the
  input pixels of the \<open>k \<times> k\<close> box around \<open>(i, j)\<close> (rows \<open>i - (k-1) div 2\<close> up to
  \<open>i + k div 2\<close>, likewise the columns), cut at the image border.
\<close>

theorem average_filter_stride_one:
  assumes "rect img" and "1 \<le> k"
  shows "py_repeat 4 [1::int] = [1, 1, 1, 1] \<and>
    (\<exists>out. average_filter img k = Inr out \<and> rect out \<and> dims out = dims img \<and>
    (\<forall>b<batch img. \<forall>i<height img. \<forall>j<width img. \<forall>c<channels img.
       out ! b ! i ! j ! c =
         (\<Sum>r\<leftarrow>[i - (nat k - 1) div 2 ..< min (height img) (i + nat k - (nat k - 1) div 2)].
          \<Sum>q\<leftarrow>[j - (nat k - 1) div 2 ..< min (width img) (j + nat k - (nat k - 1) div 2)].
            img ! b ! r ! q ! c)
         / real (length [i - (nat k - 1) div 2 ..< min (height img) (i + nat k - (nat k - 1) div 2)]
               * length [j - (nat k - 1) div 2 ..< min (width img) (j + nat k - (nat k - 1) div 2)])))"
proof -
  let ?out = "map (\<lambda>im. avg_pool_image im (nat k) (nat k) 1 1 SAME (channels img)) img"
  have hd: "has_dims img (batch img) (height img) (width img) (channels img)"
    using assms(1) by (simp add: rect_def)
  have eq: "average_filter img k = Inr ?out"
    using assms(2) by (simp add: average_filter_eq)
  have hd': "has_dims ?out (batch img) (height img) (width img) (channels img)"
    using avg_pool_image_has_dims [OF hd] by simp
  have r: "rect ?out" using hd' by (rule has_dims_rect)
  have d: "dims ?out = dims img"
    using has_dims_dims [OF hd'] dims_chain [of img] by (simp add: dims_def)
  have px: "?out ! b ! i ! j ! c =
         (\<Sum>r\<leftarrow>[i - (nat k - 1) div 2 ..< min (height img) (i + nat k - (nat k - 1) div 2)].
          \<Sum>q\<leftarrow>[j - (nat k - 1) div 2 ..< min (width img) (j + nat k - (nat k - 1) div 2)].
            img ! b ! r ! q ! c)
         / real (length [i - (nat k - 1) div 2 ..< min (height img) (i + nat k - (nat k - 1) div 2)]
               * length [j - (nat k - 1) div 2 ..< min (width img) (j + nat k - (nat k - 1) div 2)])"
    if "b < batch img" "i < height img" "j < width img" "c < channels img" for b i j c
  proof -
    have len: "length (img ! b) = height img"
      using hd that(1) by (simp add: has_dims_def list_all_length batch_def)
    have "img ! b \<noteq> []" using len that(2) by auto
    then obtain row rows where im: "img ! b = row # rows" by (cases "img ! b") auto
    have "length row = width img"
    proof -
      have "img ! b \<in> set img" using that(1) by (simp add: batch_def)
      moreover have "row \<in> set (img ! b)" by (simp add: im)
      ultimately show ?thesis using hd by (auto simp: has_dims_def list_all_iff)
    qed
    then have w: "len_hd (img ! b) = width img" by (simp add: len_hd_def im)
    show ?thesis
      using that len w
      by (simp add: batch_def avg_pool_image_def Let_def out_size_same_1 window_same_1)
  qed
  have "\<exists>out. average_filter img k = Inr out \<and> rect out \<and> dims out = dims img \<and>
    (\<forall>b<batch img. \<forall>i<height img. \<forall>j<width img. \<forall>c<channels img.
       out ! b ! i ! j ! c =
         (\<Sum>r\<leftarrow>[i - (nat k - 1) div 2 ..< min (height img) (i + nat k - (nat k - 1) div 2)].
          \<Sum>q\<leftarrow>[j - (nat k - 1) div 2 ..< min (width img) (j + nat k - (nat k - 1) div 2)].
            img ! b ! r ! q ! c)
         / real (length [i - (nat k - 1) div 2 ..< min (height img) (i + nat k - (nat k - 1) div 2)]
               * length [j - (nat k - 1) div 2 ..< min (width img) (j + nat k - (nat k - 1) div 2)]))"
    using eq r d px by blast
  then show ?thesis by (simp add: py_repeat_4)
qed

theorem average_filter_stride_one_witness:
  "rect [[[[1], [3]], [[5], [7]]]] \<and> (1::int) \<le> 2 \<and>
   (\<exists>out. average_filter [[[[1], [3]], [[5], [7]]]] 2 = Inr out \<and>
      dims out = dims [[[[1], [3]], [[5], [7]]]] \<and> out ! 0 ! 0 ! 0 ! 0 = 4)"
proof -
  let ?x = "[[[[1::real], [3]], [[5], [7]]]]"
  have r: "rect ?x"
    by (simp add: rect_def has_dims_def batch_def height_def width_def channels_def len_hd_def)
  have d: "batch ?x = 1 \<and> height ?x = 2 \<and> width ?x = 2 \<and> channels ?x = 1"
    by (simp add: batch_def height_def width_def channels_def len_hd_def)
  from average_filter_stride_one [OF r, of 2] obtain out where
    o: "average_filter ?x 2 = Inr out" "dims out = dims ?x"
      "\<forall>b<batch ?x. \<forall>i<height ?x. \<forall>j<width ?x. \<forall>c<channels ?x.
       out ! b ! i ! j ! c =
         (\<Sum>r\<leftarrow>[i - (nat 2 - 1) div 2 ..< min (height ?x) (i + nat 2 - (nat 2 - 1) div 2)].
          \<Sum>q\<leftarrow>[j - (nat 2 - 1) div 2 ..< min (width ?x) (j + nat 2 - (nat 2 - 1) div 2)].
            ?x ! b ! r ! q ! c)
         / real (length [i - (nat 2 - 1) div 2 ..< min (height ?x) (i + nat 2 - (nat 2 - 1) div 2)]
               * length [j - (nat 2 - 1) div 2 ..< min (width ?x) (j + nat 2 - (nat 2 - 1) div 2)])"
    by auto
  have "out ! 0 ! 0 ! 0 ! 0 = 4"
    using o(3) [rule_format, of 0 0 0 0] d by (simp add: upt_rec)
  then show ?thesis using r o(1,2) by auto
qed

text \<open>
  C1 as stated fails: on a \<open>4 \<times> 4\<close> image with window 2 the filter returns a \<open>4 \<times> 4\<close>
  image (each pixel the mean of the box to its right and below), not the \<open>1 \<times> 1\<close> image a
  stride of 4 would give.
\<close>

theorem average_filter_stride_four_counterexample:
  "average_filter [[[[1], [2], [3], [4]], [[5], [6], [7], [8]],
                    [[9], [10], [11], [12]], [[13], [14], [15], [16]]]] 2
     = Inr [[[[7/2], [9/2], [11/2], [6]], [[15/2], [17/2], [19/2], [10]],
             [[23/2], [25/2], [27/2], [14]], [[27/2], [29/2], [31/2], [16]]]] \<and>
   height [[[[7/2], [9/2], [11/2], [6]], [[15/2], [17/2], [19/2], [10]],
            [[23/2], [25/2], [27/2], [14]], [[27/2], [29/2], [31/2], [16::real]]]] = 4 \<and>
   height [[[[1], [2], [3], [4]], [[5], [6], [7], [8]],
            [[9], [10], [11], [12]], [[13], [14], [15], [16::real]]]] div 4 = 1"
  by (simp add: average_filter_eq avg_pool_image_def channels_def len_hd_def window_def
      pad_before_def out_size_def upt_rec height_def)

section \<open>Elementwise operations on tensors of one shape\<close>



lemma mapE_Inr_nth: "mapE f xs = Inr ys \<Longrightarrow> i < length xs \<Longrightarrow> f (xs ! i) = Inr (ys ! i)"
proof (induction xs arbitrary: ys i)
  case Nil
  then show ?case by simp
next
  case (Cons x xs)
  then show ?case by (cases i) (auto split: sum.splits)
qed















section \<open>Rounding to float32\<close>

lemma rne_cases: "rne x = \<lfloor>x\<rfloor> \<and> x - of_int \<lfloor>x\<rfloor> \<le> 1 / 2 \<or> rne x = \<lfloor>x\<rfloor> + 1 \<and> 1 / 2 \<le> x - of_int \<lfloor>x\<rfloor>"
  by (auto simp: rne_def Let_def)


lemma rne_le: "x \<le> of_int m \<Longrightarrow> rne x \<le> m"
proof -
  assume a: "x \<le> of_int m"
  have f: "\<lfloor>x\<rfloor> \<le> m" using a by (simp add: floor_le_iff)
  show ?thesis
  proof (cases "\<lfloor>x\<rfloor> = m")
    case True
    then have "x = of_int m" using a by linarith
    then show ?thesis by (simp add: rne_def)
  next
    case False
    then have "\<lfloor>x\<rfloor> + 1 \<le> m" using f by simp
    then show ?thesis using rne_cases [of x] by auto
  qed
qed


lemma rne_of_int: "rne (of_int m) = m"
  by (simp add: rne_def)

lemma float_ulp_pos: "0 < float_ulp p emin x"
  by (simp add: float_ulp_def)






lemma pow2_neg_real: "(2::real) powr (- real n) = 1 / 2 ^ n"
  by (simp add: powr_minus powr_realpow divide_inverse)

lemma pow2_mult: "(2::real) ^ p * 2 powr of_int q = 2 powr of_int (int p + q)"
proof -
  have "(2::real) ^ p * 2 powr of_int q = 2 powr real p * 2 powr of_int q"
    by (simp add: powr_realpow)
  also have "\<dots> = 2 powr (real p + of_int q)" by (simp add: powr_add)
  finally show ?thesis by simp
qed

lemma pow2_nonneg: "0 \<le> k \<Longrightarrow> (2::real) powr of_int k = of_int (2 ^ nat k)"
  using powr_realpow [of 2 "nat k"] by simp

lemma floor_log_le:
  assumes "x \<noteq> 0" "\<bar>x\<bar> \<le> 2 powr of_int k"
  shows "\<lfloor>log 2 \<bar>x\<bar>\<rfloor> \<le> k"
proof -
  have "log 2 \<bar>x\<bar> \<le> log 2 (2 powr of_int k)" using assms by (simp del: log_powr_cancel)
  then have "log 2 \<bar>x\<bar> \<le> of_int k" by simp
  then show ?thesis by (simp add: floor_le_iff)
qed



lemma round_float_nonpos: "x \<le> 0 \<Longrightarrow> round_float p emin x \<le> 0"
proof -
  assume x: "x \<le> 0"
  have u: "0 < float_ulp p emin x" by (rule float_ulp_pos)
  have "x / float_ulp p emin x \<le> of_int 0" using x u by (simp add: divide_le_0_iff)
  then have "rne (x / float_ulp p emin x) \<le> 0" by (rule rne_le)
  then show ?thesis using u by (simp add: round_float_def mult_le_0_iff)
qed






lemma round_float_exact:
  assumes m: "\<bar>m\<bar> < 2 ^ p" and q: "emin - int p + 1 \<le> q" and p: "0 < p"
  shows "round_float p emin (of_int m * 2 powr of_int q) = of_int m * 2 powr of_int q"
proof (cases "m = 0")
  case True
  then show ?thesis by (simp add: round_float_def)
next
  case False
  define x :: real where "x = of_int m * 2 powr of_int q"
  have x0: "x \<noteq> 0" using False by (simp add: x_def)
  define E where "E = max \<lfloor>log 2 \<bar>x\<bar>\<rfloor> emin - int p + 1"
  define u :: real where "u = 2 powr of_int E"
  have u: "0 < u" by (simp add: u_def)
  have fu: "float_ulp p emin x = u" by (simp add: float_ulp_def u_def E_def)
  have "\<bar>real_of_int m\<bar> \<le> 2 ^ p" using m
    by (metis abs_of_nonneg less_imp_le of_int_abs of_int_le_iff of_int_numeral of_int_power zero_le_numeral zero_le_power)
  then have "\<bar>x\<bar> \<le> 2 ^ p * 2 powr of_int q"
    unfolding x_def abs_mult by (intro mult_mono) simp_all
  also have "\<dots> = 2 powr of_int (int p + q)" by (rule pow2_mult)
  finally have "\<lfloor>log 2 \<bar>x\<bar>\<rfloor> \<le> int p + q" by (rule floor_log_le [OF x0])
  then have "\<lfloor>log 2 \<bar>x\<bar>\<rfloor> - int p + 1 \<le> q + 1" by simp
  have lt: "\<bar>x\<bar> < 2 powr of_int (int p + q)"
  proof -
    have "\<bar>real_of_int m\<bar> < 2 ^ p" using m
      by (metis of_int_abs of_int_less_iff of_int_numeral of_int_power)
    then have "\<bar>x\<bar> < 2 ^ p * 2 powr of_int q"
      unfolding x_def abs_mult by simp
    also have "\<dots> = 2 powr of_int (int p + q)" by (rule pow2_mult)
    finally show ?thesis .
  qed
  have "\<lfloor>log 2 \<bar>x\<bar>\<rfloor> < int p + q"
  proof -
    have "log 2 \<bar>x\<bar> < log 2 (2 powr of_int (int p + q))" using lt x0 by (simp del: log_powr_cancel)
    then have "log 2 \<bar>x\<bar> < of_int (int p + q)" by simp
    then show ?thesis by (simp add: floor_less_iff)
  qed
  then have Eq: "0 \<le> q - E" using q by (simp add: E_def max_def)
  have "x / u = of_int m * (2 powr of_int q / 2 powr of_int E)" by (simp add: x_def u_def)
  also have "2 powr of_int q / 2 powr of_int E = (2::real) powr of_int (q - E)"
    by (simp add: powr_diff)
  also have "\<dots> = of_int (2 ^ nat (q - E))" by (rule pow2_nonneg [OF Eq])
  finally have "x / u = of_int (m * 2 ^ nat (q - E))" by simp
  then have "of_int (rne (x / u)) = x / u" by (simp only: rne_of_int)
  then have "round_float p emin x = x" using x0 u by (simp add: round_float_def fu)
  then show ?thesis by (simp add: x_def)
qed

lemma fl32_exact: "\<bar>m\<bar> < 2 ^ 24 \<Longrightarrow> n \<le> 149 \<Longrightarrow> fl32 (of_int m / 2 ^ n) = of_int m / 2 ^ n"
  using round_float_exact [of m 24 "- 126" "- int n"] by (simp add: fl32_def pow2_neg_real)



lemma fl32_2: "fl32 2 = 2"
  using fl32_exact [of 2 0] by simp


















section \<open>Running builds: the error and state monad\<close>

lemma bindB_Inr_iff:
  "bindB m f vs = Inr r \<longleftrightarrow> (\<exists>x vs'. m vs = Inr (x, vs') \<and> f x vs' = Inr r)"
  by (auto simp: bindB_def split: sum.splits)

lemma bindB_Inr: "m vs = Inr (x, vs') \<Longrightarrow> bindB m f vs = f x vs'"
  by (simp add: bindB_def)

lemma liftB_Inr_iff: "liftB r vs = Inr (x, vs') \<longleftrightarrow> r = Inr x \<and> vs' = vs"
  by (auto simp: liftB_def split: sum.splits)

lemma returnB_Inr_iff: "returnB x vs = Inr (y, vs') \<longleftrightarrow> y = x \<and> vs' = vs"
  by (auto simp: returnB_def)

lemma failB_not_Inr: "failB e vs \<noteq> Inr r"
  by (simp add: failB_def)

section \<open>Parameter sharing between discriminator builds\<close>

lemma scoped_reuse [simp]: "scoped (reuse_variables sc) n = scoped sc n"
  by (simp add: scoped_def reuse_variables_def)

lemma variable_scope_reuse:
  "variable_scope (reuse_variables sc) n = reuse_variables (variable_scope sc n)"
  by (simp add: variable_scope_def reuse_variables_def scoped_def)

lemma scope_reuse_simps [simp]:
  "scope_reuse (reuse_variables sc) = True"
  "scope_reuse (variable_scope sc n) = scope_reuse sc"
  by (simp_all add: variable_scope_def reuse_variables_def)

lemma mapB_get_fresh:
  assumes "mapB (get_variable sc) vars vs = Inr (ns, vs')" and "\<not> scope_reuse sc"
  shows "ns = map (scoped sc) vars \<and> vs' = vs @ ns \<and> set ns \<inter> set vs = {}"
  using assms
proof (induction vars arbitrary: vs ns vs')
  case Nil
  then show ?case by (simp add: returnB_def)
next
  case (Cons v vars)
  from Cons.prems(1) obtain n0 ns' v1 where
    g: "get_variable sc v vs = Inr (n0, v1)" and
    m: "mapB (get_variable sc) vars v1 = Inr (ns', vs')" and
    n: "ns = n0 # ns'"
    by (auto simp: bindB_Inr_iff returnB_Inr_iff)
  from g Cons.prems(2) have v1: "v1 = vs @ [scoped sc v]" and fr: "scoped sc v \<notin> set vs"
    and n0: "n0 = scoped sc v"
    by (auto simp: get_variable_def split: if_splits)
  have ih: "ns' = map (scoped sc) vars \<and> vs' = v1 @ ns' \<and> set ns' \<inter> set v1 = {}"
    by (rule Cons.IH [OF m Cons.prems(2)])
  show ?case using n n0 v1 fr ih by (auto simp: disjoint_iff)
qed

lemma mapB_get_reuse:
  assumes "scope_reuse sc" and "scoped sc ` set vars \<subseteq> set vs"
  shows "mapB (get_variable sc) vars vs = Inr (map (scoped sc) vars, vs)"
  using assms
  by (induction vars) (auto simp: returnB_def bindB_def get_variable_def)

text \<open>A layer's variables.\<close>

lemma layer_variables_fresh:
  assumes "layer_variables sc name vars vs = Inr (ns, vs')" and "\<not> scope_reuse sc"
  shows "ns = map (scoped (variable_scope sc name)) vars \<and> vs' = vs @ ns \<and> set ns \<inter> set vs = {}"
proof -
  have "mapB (get_variable (variable_scope sc name)) vars vs = Inr (ns, vs')"
    using assms(1) by (simp add: layer_variables_def)
  moreover have "\<not> scope_reuse (variable_scope sc name)" using assms(2) by simp
  ultimately show ?thesis by (rule mapB_get_fresh)
qed

lemma layer_variables_reuse:
  assumes "layer_variables sc name vars vs = Inr (ns, vs1)" and "\<not> scope_reuse sc"
    and "set vs1 \<subseteq> set V"
  shows "layer_variables (reuse_variables sc) name vars V = Inr (ns, V)"
proof -
  from layer_variables_fresh [OF assms(1,2)] have
    ns: "ns = map (scoped (variable_scope sc name)) vars" and vs1: "vs1 = vs @ ns" by auto
  have "scoped (reuse_variables (variable_scope sc name)) ` set vars \<subseteq> set V"
    using ns vs1 assms(3) by auto
  then show ?thesis
    using mapB_get_reuse [of "reuse_variables (variable_scope sc name)" vars V] ns
    by (simp add: layer_variables_def variable_scope_reuse)
qed


lemma layer_call_fresh:
  assumes "bindB (layer_variables sc name vars) (\<lambda>ns. liftB (F (map \<theta> ns))) vs = Inr (y, vs')"
    and "\<not> scope_reuse sc"
  shows "vs' = vs @ map (scoped (variable_scope sc name)) vars \<and>
         scoped (variable_scope sc name) ` set vars \<inter> set vs = {} \<and>
         F (map \<theta> (map (scoped (variable_scope sc name)) vars)) = Inr y"
proof -
  from assms(1) obtain ns v1 where
    l: "layer_variables sc name vars vs = Inr (ns, v1)" and f: "liftB (F (map \<theta> ns)) v1 = Inr (y, vs')"
    by (auto simp: bindB_Inr_iff)
  from layer_variables_fresh [OF l assms(2)] f show ?thesis
    by (auto simp: liftB_Inr_iff disjoint_iff)
qed

lemma layer_call_reuse:
  assumes "bindB (layer_variables sc name vars) (\<lambda>ns. liftB (F (map \<theta> ns))) vs = Inr (y, vs')"
    and "\<not> scope_reuse sc" and "set vs' \<subseteq> set V"
  shows "bindB (layer_variables (reuse_variables sc) name vars) (\<lambda>ns. liftB (F (map \<theta> ns))) V = Inr (y, V)"
proof -
  from assms(1) obtain ns v1 where
    l: "layer_variables sc name vars vs = Inr (ns, v1)" and f: "liftB (F (map \<theta> ns)) v1 = Inr (y, vs')"
    by (auto simp: bindB_Inr_iff)
  from f have fy: "F (map \<theta> ns) = Inr y" and v1: "v1 = vs'" by (auto simp: liftB_Inr_iff)
  have "layer_variables (reuse_variables sc) name vars V = Inr (ns, V)"
    using layer_variables_reuse [OF l assms(2)] assms(3) v1 by simp
  then show ?thesis by (simp add: bindB_def liftB_def fy)
qed

lemma layer_call_session:
  assumes "bindB (layer_variables sc name vars) (\<lambda>ns. liftB (F (map \<theta> ns))) vs = Inr (y, vs')"
    and "\<not> scope_reuse sc" and "\<forall>v\<in>set vs' - set vs. \<theta>' v = \<theta> v"
  shows "bindB (layer_variables sc name vars) (\<lambda>ns. liftB (F (map \<theta>' ns))) vs = Inr (y, vs')"
proof -
  from assms(1) obtain ns v1 where
    l: "layer_variables sc name vars vs = Inr (ns, v1)" and f: "liftB (F (map \<theta> ns)) v1 = Inr (y, vs')"
    by (auto simp: bindB_Inr_iff)
  from f have fy: "F (map \<theta> ns) = Inr y" and v1: "v1 = vs'" by (auto simp: liftB_Inr_iff)
  from layer_variables_fresh [OF l assms(2)] have "vs' = vs @ ns \<and> set ns \<inter> set vs = {}"
    unfolding v1 by blast
  then have "\<forall>v\<in>set ns. \<theta>' v = \<theta> v" using assms(3) by (auto simp: disjoint_iff)
  then have eq: "map \<theta>' ns = map \<theta> ns" by simp
  show ?thesis by (simp add: bindB_def liftB_def l eq fy v1)
qed

lemma slash_split:
  "CHR ''/'' \<notin> set a \<Longrightarrow> CHR ''/'' \<notin> set b \<Longrightarrow> a @ CHR ''/'' # r = b @ CHR ''/'' # t \<Longrightarrow> a = b"
proof (induction a arbitrary: b)
  case Nil
  then show ?case by (cases b) auto
next
  case (Cons c a)
  then show ?case by (cases b) auto
qed

lemma scoped_nonempty: "n \<noteq> [] \<Longrightarrow> scoped sc n \<noteq> []"
  by (simp add: scoped_def)

lemma scoped_layer_var:
  "n \<noteq> [] \<Longrightarrow> l \<noteq> [] \<Longrightarrow>
   scoped (variable_scope (variable_scope outer n) l) v = scoped outer n @ ''/'' @ l @ ''/'' @ v"
  by (simp add: scoped_def variable_scope_def)


lemma layer_call_mono:
  assumes "bindB (layer_variables sc name vars) (\<lambda>ns. liftB (F (map \<theta> ns))) vs = Inr (y, vs')"
    and "\<not> scope_reuse sc"
  shows "set vs \<subseteq> set vs'"
  using layer_call_fresh [OF assms] by auto

lemma layer_call_names:
  assumes "bindB (layer_variables sc name vars) (\<lambda>ns. liftB (F (map \<theta> ns))) vs = Inr (y, vs')"
    and "\<not> scope_reuse sc" and "v \<in> set vs' - set vs"
  shows "\<exists>r. v = scoped (variable_scope sc name) r"
  using layer_call_fresh [OF assms(1,2)] assms(3) by auto

lemma conv2d_mono:
  "conv2d P \<theta> sc x d k s p l vs = Inr (y, vs') \<Longrightarrow> \<not> scope_reuse sc \<Longrightarrow> set vs \<subseteq> set vs'"
  unfolding conv2d_def by (rule layer_call_mono)

lemma conv2d_reuse:
  "conv2d P \<theta> sc x d k s p l vs = Inr (y, vs') \<Longrightarrow> \<not> scope_reuse sc \<Longrightarrow> set vs' \<subseteq> set V
   \<Longrightarrow> conv2d P \<theta> (reuse_variables sc) x d k s p l V = Inr (y, V)"
  unfolding conv2d_def by (rule layer_call_reuse)

lemma conv2d_session:
  "conv2d P \<theta> sc x d k s p l vs = Inr (y, vs') \<Longrightarrow> \<not> scope_reuse sc
   \<Longrightarrow> \<forall>v\<in>set vs' - set vs. \<theta>' v = \<theta> v
   \<Longrightarrow> conv2d P \<theta>' sc x d k s p l vs = Inr (y, vs')"
  unfolding conv2d_def
  by (rule layer_call_session [where F = "\<lambda>ws. conv2d_fn P ws x d k s p"])

lemma conv2d_names:
  "conv2d P \<theta> sc x d k s p l vs = Inr (y, vs') \<Longrightarrow> \<not> scope_reuse sc \<Longrightarrow> v \<in> set vs' - set vs
   \<Longrightarrow> \<exists>r. v = scoped (variable_scope sc l) r"
  unfolding conv2d_def by (rule layer_call_names)

lemma instance_norm_mono:
  "instance_norm P \<theta> sc x l vs = Inr (y, vs') \<Longrightarrow> \<not> scope_reuse sc \<Longrightarrow> set vs \<subseteq> set vs'"
  unfolding instance_norm_def by (rule layer_call_mono)

lemma instance_norm_reuse:
  "instance_norm P \<theta> sc x l vs = Inr (y, vs') \<Longrightarrow> \<not> scope_reuse sc \<Longrightarrow> set vs' \<subseteq> set V
   \<Longrightarrow> instance_norm P \<theta> (reuse_variables sc) x l V = Inr (y, V)"
  unfolding instance_norm_def by (rule layer_call_reuse)

lemma instance_norm_session:
  "instance_norm P \<theta> sc x l vs = Inr (y, vs') \<Longrightarrow> \<not> scope_reuse sc
   \<Longrightarrow> \<forall>v\<in>set vs' - set vs. \<theta>' v = \<theta> v
   \<Longrightarrow> instance_norm P \<theta>' sc x l vs = Inr (y, vs')"
  unfolding instance_norm_def
  by (rule layer_call_session [where F = "\<lambda>ws. instance_norm_fn P ws x"])

lemma instance_norm_names:
  "instance_norm P \<theta> sc x l vs = Inr (y, vs') \<Longrightarrow> \<not> scope_reuse sc \<Longrightarrow> v \<in> set vs' - set vs
   \<Longrightarrow> \<exists>r. v = scoped (variable_scope sc l) r"
  unfolding instance_norm_def by (rule layer_call_names)

lemma enter_scope_fresh:
  "enter_scope outer name False vs = Inr (sc, vs') \<longleftrightarrow>
     \<not> scope_reuse outer \<and> sc = variable_scope outer name \<and> vs' = vs"
  by (auto simp: enter_scope_def Let_def returnB_def failB_def)

lemma enter_scope_reuse:
  "enter_scope outer name True vs = Inr (reuse_variables (variable_scope outer name), vs)"
  by (simp add: enter_scope_def Let_def returnB_def)

lemma discriminator_props:
  assumes b: "discriminator P \<theta> outer x df ks dl False name vs0 = Inr (y, vs1)"
  shows "set vs0 \<subseteq> set vs1 \<and>
    (\<forall>V. set vs1 \<subseteq> set V \<longrightarrow> discriminator P \<theta> outer x df ks dl True name V = Inr (y, V)) \<and>
    (\<forall>\<theta>'. (\<forall>v\<in>set vs1 - set vs0. \<theta>' v = \<theta> v) \<longrightarrow>
       discriminator P \<theta>' outer x df ks dl False name vs0 = Inr (y, vs1)) \<and>
    (\<forall>v\<in>set vs1 - set vs0. \<exists>l r. l \<noteq> [] \<and> v = scoped (variable_scope (variable_scope outer name) l) r)"
proof -
  let ?sc = "variable_scope outer name"
  from b obtain c0 v1 c1 v2 n1 v3 c2 v4 n2 v5 where
    nr: "\<not> scope_reuse outer" and
    l0: "conv2d P \<theta> ?sc x df (Some ks) None None ''d_h0_conv'' vs0 = Inr (c0, v1)" and
    l1: "conv2d P \<theta> ?sc (lrelu P c0) (df * 2) (Some ks) None None ''d_h1_conv'' v1 = Inr (c1, v2)" and
    l2: "instance_norm P \<theta> ?sc c1 ''d_bn1'' v2 = Inr (n1, v3)" and
    l3: "conv2d P \<theta> ?sc (lrelu P n1) (df * 4) (Some ks) None None ''d_h2_conv'' v3 = Inr (c2, v4)" and
    l4: "instance_norm P \<theta> ?sc c2 ''d_bn2'' v4 = Inr (n2, v5)" and
    l5: "conv2d P \<theta> ?sc (lrelu P n2) dl (Some ks) (Some 1) None ''d_h3_pred'' v5 = Inr (y, vs1)"
    unfolding discriminator_def Let_def
    by (auto simp: bindB_Inr_iff enter_scope_fresh)
  have nr': "\<not> scope_reuse ?sc" using nr by simp
  note mono = conv2d_mono [OF l0 nr'] conv2d_mono [OF l1 nr'] instance_norm_mono [OF l2 nr']
    conv2d_mono [OF l3 nr'] instance_norm_mono [OF l4 nr'] conv2d_mono [OF l5 nr']
  have A: "set vs0 \<subseteq> set vs1" using mono by blast
  have B: "discriminator P \<theta> outer x df ks dl True name V = Inr (y, V)" if V: "set vs1 \<subseteq> set V" for V
  proof -
    have r0: "conv2d P \<theta> (reuse_variables ?sc) x df (Some ks) None None ''d_h0_conv'' V = Inr (c0, V)"
      using mono V by (intro conv2d_reuse [OF l0 nr']) blast
    have r1: "conv2d P \<theta> (reuse_variables ?sc) (lrelu P c0) (df * 2) (Some ks) None None ''d_h1_conv'' V = Inr (c1, V)"
      using mono V by (intro conv2d_reuse [OF l1 nr']) blast
    have r2: "instance_norm P \<theta> (reuse_variables ?sc) c1 ''d_bn1'' V = Inr (n1, V)"
      using mono V by (intro instance_norm_reuse [OF l2 nr']) blast
    have r3: "conv2d P \<theta> (reuse_variables ?sc) (lrelu P n1) (df * 4) (Some ks) None None ''d_h2_conv'' V = Inr (c2, V)"
      using mono V by (intro conv2d_reuse [OF l3 nr']) blast
    have r4: "instance_norm P \<theta> (reuse_variables ?sc) c2 ''d_bn2'' V = Inr (n2, V)"
      using mono V by (intro instance_norm_reuse [OF l4 nr']) blast
    have r5: "conv2d P \<theta> (reuse_variables ?sc) (lrelu P n2) dl (Some ks) (Some 1) None ''d_h3_pred'' V = Inr (y, V)"
      using mono V by (intro conv2d_reuse [OF l5 nr']) blast
    show ?thesis
      unfolding discriminator_def Let_def
      by (simp add: bindB_Inr enter_scope_reuse r0 r1 r2 r3 r4 r5 del: One_nat_def)
  qed
  have C: "discriminator P \<theta>' outer x df ks dl False name vs0 = Inr (y, vs1)"
    if T: "\<forall>v\<in>set vs1 - set vs0. \<theta>' v = \<theta> v" for \<theta>'
  proof -
    have e: "enter_scope outer name False vs0 = Inr (?sc, vs0)"
      using nr by (simp add: enter_scope_fresh)
    have s0: "conv2d P \<theta>' ?sc x df (Some ks) None None ''d_h0_conv'' vs0 = Inr (c0, v1)"
      using mono T by (intro conv2d_session [OF l0 nr']) blast
    have s1: "conv2d P \<theta>' ?sc (lrelu P c0) (df * 2) (Some ks) None None ''d_h1_conv'' v1 = Inr (c1, v2)"
      using mono T by (intro conv2d_session [OF l1 nr']) blast
    have s2: "instance_norm P \<theta>' ?sc c1 ''d_bn1'' v2 = Inr (n1, v3)"
      using mono T by (intro instance_norm_session [OF l2 nr']) blast
    have s3: "conv2d P \<theta>' ?sc (lrelu P n1) (df * 4) (Some ks) None None ''d_h2_conv'' v3 = Inr (c2, v4)"
      using mono T by (intro conv2d_session [OF l3 nr']) blast
    have s4: "instance_norm P \<theta>' ?sc c2 ''d_bn2'' v4 = Inr (n2, v5)"
      using mono T by (intro instance_norm_session [OF l4 nr']) blast
    have s5: "conv2d P \<theta>' ?sc (lrelu P n2) dl (Some ks) (Some 1) None ''d_h3_pred'' v5 = Inr (y, vs1)"
      using mono T by (intro conv2d_session [OF l5 nr']) blast
    show ?thesis
      unfolding discriminator_def Let_def
      by (simp add: bindB_Inr e s0 s1 s2 s3 s4 s5 del: One_nat_def)
  qed
  have D: "\<exists>l r. l \<noteq> [] \<and> v = scoped (variable_scope ?sc l) r" if v: "v \<in> set vs1 - set vs0" for v
  proof -
    from v have "v \<in> set v1 - set vs0 \<or> v \<in> set v2 - set v1 \<or> v \<in> set v3 - set v2 \<or>
      v \<in> set v4 - set v3 \<or> v \<in> set v5 - set v4 \<or> v \<in> set vs1 - set v5" by blast
    then show ?thesis
    proof (elim disjE)
      assume "v \<in> set v1 - set vs0"
      then obtain r where "v = scoped (variable_scope ?sc ''d_h0_conv'') r" using conv2d_names [OF l0 nr'] by blast
      then show ?thesis by (intro exI [of _ "''d_h0_conv''"] exI [of _ r]) simp
    next
      assume "v \<in> set v2 - set v1"
      then obtain r where "v = scoped (variable_scope ?sc ''d_h1_conv'') r" using conv2d_names [OF l1 nr'] by blast
      then show ?thesis by (intro exI [of _ "''d_h1_conv''"] exI [of _ r]) simp
    next
      assume "v \<in> set v3 - set v2"
      then obtain r where "v = scoped (variable_scope ?sc ''d_bn1'') r" using instance_norm_names [OF l2 nr'] by blast
      then show ?thesis by (intro exI [of _ "''d_bn1''"] exI [of _ r]) simp
    next
      assume "v \<in> set v4 - set v3"
      then obtain r where "v = scoped (variable_scope ?sc ''d_h2_conv'') r" using conv2d_names [OF l3 nr'] by blast
      then show ?thesis by (intro exI [of _ "''d_h2_conv''"] exI [of _ r]) simp
    next
      assume "v \<in> set v5 - set v4"
      then obtain r where "v = scoped (variable_scope ?sc ''d_bn2'') r" using instance_norm_names [OF l4 nr'] by blast
      then show ?thesis by (intro exI [of _ "''d_bn2''"] exI [of _ r]) simp
    next
      assume "v \<in> set vs1 - set v5"
      then obtain r where "v = scoped (variable_scope ?sc ''d_h3_pred'') r" using conv2d_names [OF l5 nr'] by blast
      then show ?thesis by (intro exI [of _ "''d_h3_pred''"] exI [of _ r]) simp
    qed
  qed
  show ?thesis using A B C D by blast
qed


lemma layer_call_store:
  assumes "bindB (layer_variables sc name vars) (\<lambda>ns. liftB (F (map \<theta> ns))) vs = Inr (y, vs')"
    and "\<not> scope_reuse sc"
  shows "vs' = vs @ map (scoped (variable_scope sc name)) vars"
  using layer_call_fresh [OF assms] by simp

lemma conv2d_store:
  "conv2d P \<theta> sc x d k s p l vs = Inr (y, vs') \<Longrightarrow> \<not> scope_reuse sc
   \<Longrightarrow> vs' = vs @ map (scoped (variable_scope sc l)) (conv2d_vars P)"
  unfolding conv2d_def
  by (rule layer_call_store [where F = "\<lambda>ws. conv2d_fn P ws x d k s p"])

lemma instance_norm_store:
  "instance_norm P \<theta> sc x l vs = Inr (y, vs') \<Longrightarrow> \<not> scope_reuse sc
   \<Longrightarrow> vs' = vs @ map (scoped (variable_scope sc l)) (instance_norm_vars P)"
  unfolding instance_norm_def
  by (rule layer_call_store [where F = "\<lambda>ws. instance_norm_fn P ws x"])

lemma discriminator_store:
  assumes b: "discriminator P \<theta> outer x df ks dl False name vs0 = Inr (y, vs1)"
  shows "vs1 = vs0
    @ map (scoped (variable_scope (variable_scope outer name) ''d_h0_conv'')) (conv2d_vars P)
    @ map (scoped (variable_scope (variable_scope outer name) ''d_h1_conv'')) (conv2d_vars P)
    @ map (scoped (variable_scope (variable_scope outer name) ''d_bn1'')) (instance_norm_vars P)
    @ map (scoped (variable_scope (variable_scope outer name) ''d_h2_conv'')) (conv2d_vars P)
    @ map (scoped (variable_scope (variable_scope outer name) ''d_bn2'')) (instance_norm_vars P)
    @ map (scoped (variable_scope (variable_scope outer name) ''d_h3_pred'')) (conv2d_vars P)"
proof -
  let ?sc = "variable_scope outer name"
  from b obtain c0 v1 c1 v2 n1 v3 c2 v4 n2 v5 where
    nr: "\<not> scope_reuse outer" and
    l0: "conv2d P \<theta> ?sc x df (Some ks) None None ''d_h0_conv'' vs0 = Inr (c0, v1)" and
    l1: "conv2d P \<theta> ?sc (lrelu P c0) (df * 2) (Some ks) None None ''d_h1_conv'' v1 = Inr (c1, v2)" and
    l2: "instance_norm P \<theta> ?sc c1 ''d_bn1'' v2 = Inr (n1, v3)" and
    l3: "conv2d P \<theta> ?sc (lrelu P n1) (df * 4) (Some ks) None None ''d_h2_conv'' v3 = Inr (c2, v4)" and
    l4: "instance_norm P \<theta> ?sc c2 ''d_bn2'' v4 = Inr (n2, v5)" and
    l5: "conv2d P \<theta> ?sc (lrelu P n2) dl (Some ks) (Some 1) None ''d_h3_pred'' v5 = Inr (y, vs1)"
    unfolding discriminator_def Let_def
    by (auto simp: bindB_Inr_iff enter_scope_fresh)
  have nr': "\<not> scope_reuse ?sc" using nr by simp
  show ?thesis
    using conv2d_store [OF l0 nr'] conv2d_store [OF l1 nr'] instance_norm_store [OF l2 nr']
      conv2d_store [OF l3 nr'] instance_norm_store [OF l4 nr'] conv2d_store [OF l5 nr']
    by simp
qed

lemma scoped_two:
  "name \<noteq> [] \<Longrightarrow> l \<noteq> [] \<Longrightarrow>
   scoped (variable_scope (variable_scope sc name) l) r = scoped sc name @ ''/'' @ l @ ''/'' @ r"
  by (simp add: scoped_def variable_scope_def)

lemma scoped_slash_neq:
  assumes "n1 \<noteq> n2" "n1 \<noteq> []" "n2 \<noteq> []" "CHR ''/'' \<notin> set n1" "CHR ''/'' \<notin> set n2"
  shows "scoped outer n1 @ CHR ''/'' # r1 \<noteq> scoped outer n2 @ CHR ''/'' # r2"
  using assms slash_split [of n1 n2 r1 r2] by (auto simp: scoped_def)

text \<open>
  C2.  Let the discriminator be built a first time (\<open>reuse = False\<close>) under the scope
  \<open>n1\<close> and the name \<open>name\<close>, creating the variables \<open>vs1 - vs0\<close>.  Then a second build
  with \<open>reuse = True\<close> under the same scope and name succeeds, creates no variable and
  returns the same output; on every other input too it returns what the first build
  returns on that input.  The output depends on the session only through the variables
  the first build created; each of their names starts with \<open>n1/name/\<close>.  A discriminator
  built under another scope \<open>n2\<close> (as \<open>input_discrim\<close> is for \<open>denoise\<close>) creates variables
  disjoint from these, and its output does not change when the values of the first
  discriminator's variables change: the two share no parameter.
\<close>

theorem discriminator_parameter_sharing:
  assumes b: "discriminator P \<theta> (variable_scope outer n1) x df ks dl False name vs0 = Inr (y1, vs1)"
    and name: "name \<noteq> []" and n1: "n1 \<noteq> []" "CHR ''/'' \<notin> set n1"
  shows "discriminator P \<theta> (variable_scope outer n1) x df ks dl True name vs1 = Inr (y1, vs1) \<and>
    (\<forall>x' y' vs'. discriminator P \<theta> (variable_scope outer n1) x' df ks dl False name vs0 = Inr (y', vs')
       \<longrightarrow> discriminator P \<theta> (variable_scope outer n1) x' df ks dl True name vs1 = Inr (y', vs1)) \<and>
    (\<forall>\<theta>'. (\<forall>v\<in>set vs1 - set vs0. \<theta>' v = \<theta> v)
       \<longrightarrow> discriminator P \<theta>' (variable_scope outer n1) x df ks dl False name vs0 = Inr (y1, vs1)) \<and>
    (\<forall>v\<in>set vs1 - set vs0. prefix (scoped outer n1 @ ''/'' @ name @ ''/'') v) \<and>
    (\<forall>n2 x2 df2 ks2 dl2 vs y2 vs2.
       n2 \<noteq> [] \<and> n2 \<noteq> n1 \<and> CHR ''/'' \<notin> set n2 \<and>
       discriminator P \<theta> (variable_scope outer n2) x2 df2 ks2 dl2 False name vs = Inr (y2, vs2)
       \<longrightarrow> (set vs2 - set vs) \<inter> (set vs1 - set vs0) = {} \<and>
           (\<forall>\<theta>'. (\<forall>v. v \<notin> set vs1 - set vs0 \<longrightarrow> \<theta>' v = \<theta> v)
              \<longrightarrow> discriminator P \<theta>' (variable_scope outer n2) x2 df2 ks2 dl2 False name vs = Inr (y2, vs2)))"
proof -
  note p = discriminator_props [OF b]
  have pre: "prefix (scoped outer m @ ''/'' @ name @ ''/'') v"
    if "discriminator P \<theta> (variable_scope outer m) xx dd kk ll False name w0 = Inr (yy, w1)"
      and "m \<noteq> []" and "v \<in> set w1 - set w0" for m xx dd kk ll w0 yy w1 v
  proof -
    from discriminator_props [OF that(1)] that(3) obtain l r where
      "l \<noteq> []" "v = scoped (variable_scope (variable_scope (variable_scope outer m) name) l) r"
      by blast
    then have "v = scoped (variable_scope outer m) name @ ''/'' @ l @ ''/'' @ r"
      using name by (simp add: scoped_two)
    moreover have "scoped (variable_scope outer m) name = scoped outer m @ ''/'' @ name"
      using that(2) by (simp add: scoped_def variable_scope_def)
    ultimately show ?thesis by (simp add: prefix_def)
  qed
  have A: "discriminator P \<theta> (variable_scope outer n1) x df ks dl True name vs1 = Inr (y1, vs1)"
    using p by blast
  have B: "discriminator P \<theta> (variable_scope outer n1) x' df ks dl True name vs1 = Inr (y', vs1)"
    if f: "discriminator P \<theta> (variable_scope outer n1) x' df ks dl False name vs0 = Inr (y', vs')"
    for x' y' vs'
  proof -
    have "vs' = vs1" using discriminator_store [OF f] discriminator_store [OF b] by simp
    then show ?thesis using discriminator_props [OF f] by blast
  qed
  have C: "\<forall>\<theta>'. (\<forall>v\<in>set vs1 - set vs0. \<theta>' v = \<theta> v)
       \<longrightarrow> discriminator P \<theta>' (variable_scope outer n1) x df ks dl False name vs0 = Inr (y1, vs1)"
    using p by blast
  have D: "\<forall>v\<in>set vs1 - set vs0. prefix (scoped outer n1 @ ''/'' @ name @ ''/'') v"
    using pre [OF b n1(1)] by blast
  have E: "(set vs2 - set vs) \<inter> (set vs1 - set vs0) = {} \<and>
           (\<forall>\<theta>'. (\<forall>v. v \<notin> set vs1 - set vs0 \<longrightarrow> \<theta>' v = \<theta> v)
              \<longrightarrow> discriminator P \<theta>' (variable_scope outer n2) x2 df2 ks2 dl2 False name vs = Inr (y2, vs2))"
    if n2: "n2 \<noteq> []" "n2 \<noteq> n1" "CHR ''/'' \<notin> set n2"
      and g: "discriminator P \<theta> (variable_scope outer n2) x2 df2 ks2 dl2 False name vs = Inr (y2, vs2)"
    for n2 x2 df2 ks2 dl2 vs y2 vs2
  proof -
    have dis: "(set vs2 - set vs) \<inter> (set vs1 - set vs0) = {}"
    proof (rule ccontr)
      assume "(set vs2 - set vs) \<inter> (set vs1 - set vs0) \<noteq> {}"
      then obtain v where v2: "v \<in> set vs2 - set vs" and v1: "v \<in> set vs1 - set vs0" by blast
      from pre [OF g n2(1) v2] obtain r2 where r2: "v = scoped outer n2 @ CHR ''/'' # r2"
        by (auto simp: prefix_def)
      from pre [OF b n1(1) v1] obtain r1 where r1: "v = scoped outer n1 @ CHR ''/'' # r1"
        by (auto simp: prefix_def)
      show False
        using scoped_slash_neq [of n1 n2 outer r1 r2] n1 n2 r1 r2 by simp
    qed
    have "discriminator P \<theta>' (variable_scope outer n2) x2 df2 ks2 dl2 False name vs = Inr (y2, vs2)"
      if t: "\<forall>v. v \<notin> set vs1 - set vs0 \<longrightarrow> \<theta>' v = \<theta> v" for \<theta>'
    proof -
      have "\<forall>v\<in>set vs2 - set vs. \<theta>' v = \<theta> v" using t dis by blast
      then show ?thesis using discriminator_props [OF g] by blast
    qed
    then show ?thesis using dis by blast
  qed
  show ?thesis using A B C D E by blast
qed

theorem discriminator_parameter_sharing_witness:
  "discriminator shape_ops (\<lambda>_. [1]) (variable_scope root_scope ''denoise'') [[[[0]]]] 1 3 1 False
     ''discriminator'' []
   = Inr ([[[[1]]]],
       [''denoise/discriminator/d_h0_conv/weights'', ''denoise/discriminator/d_h1_conv/weights'',
        ''denoise/discriminator/d_bn1/scale'', ''denoise/discriminator/d_bn1/offset'',
        ''denoise/discriminator/d_h2_conv/weights'', ''denoise/discriminator/d_bn2/scale'',
        ''denoise/discriminator/d_bn2/offset'', ''denoise/discriminator/d_h3_pred/weights'']) \<and>
   discriminator shape_ops (\<lambda>_. [1]) (variable_scope root_scope ''denoise'') [[[[0]]]] 1 3 1 True
     ''discriminator''
       [''denoise/discriminator/d_h0_conv/weights'', ''denoise/discriminator/d_h1_conv/weights'',
        ''denoise/discriminator/d_bn1/scale'', ''denoise/discriminator/d_bn1/offset'',
        ''denoise/discriminator/d_h2_conv/weights'', ''denoise/discriminator/d_bn2/scale'',
        ''denoise/discriminator/d_bn2/offset'', ''denoise/discriminator/d_h3_pred/weights'']
   = Inr ([[[[1]]]],
       [''denoise/discriminator/d_h0_conv/weights'', ''denoise/discriminator/d_h1_conv/weights'',
        ''denoise/discriminator/d_bn1/scale'', ''denoise/discriminator/d_bn1/offset'',
        ''denoise/discriminator/d_h2_conv/weights'', ''denoise/discriminator/d_bn2/scale'',
        ''denoise/discriminator/d_bn2/offset'', ''denoise/discriminator/d_h3_pred/weights''])"
proof -
  have first: "discriminator shape_ops (\<lambda>_. [1]) (variable_scope root_scope ''denoise'') [[[[0]]]] 1 3 1
     False ''discriminator'' []
   = Inr ([[[[1]]]],
       [''denoise/discriminator/d_h0_conv/weights'', ''denoise/discriminator/d_h1_conv/weights'',
        ''denoise/discriminator/d_bn1/scale'', ''denoise/discriminator/d_bn1/offset'',
        ''denoise/discriminator/d_h2_conv/weights'', ''denoise/discriminator/d_bn2/scale'',
        ''denoise/discriminator/d_bn2/offset'', ''denoise/discriminator/d_h3_pred/weights''])"
    by code_simp
  have "''discriminator'' \<noteq> []" "''denoise'' \<noteq> []" "CHR ''/'' \<notin> set ''denoise''"
    by simp_all
  from discriminator_parameter_sharing [OF first this] first show ?thesis by blast
qed

section \<open>Sigmoid cross-entropy\<close>


lemma mapE_cong: "(\<And>x. x \<in> set xs \<Longrightarrow> f x = g x) \<Longrightarrow> mapE f xs = mapE g xs"
  by (induction xs) (auto split: sum.splits)


lemma dims_ew1 [simp]: "dims (ew1 g t) = dims t"
  by (auto simp: dims_def ew1_def batch_def height_def width_def channels_def len_hd_def
      split: list.splits)










section \<open>The gated denoise pipeline\<close>

lemma the_var_Inr_iff: "the_var v vs = Inr (x, vs') \<longleftrightarrow> v = Some x \<and> vs' = vs"
  by (auto simp: the_var_def failB_def returnB_def split: option.splits)

lemma denoise_sim_not_training:
  "denoise_sim d F False n orig ld sd vs = Inr (r, vs') \<longleftrightarrow> r = (None, ld, sd) \<and> vs' = vs"
  by (auto simp: denoise_sim_def returnB_def)

lemma denoise_adversary_not_training:
  assumes "denoise_adversary P \<theta> sc d F False noisy orig g ld sd vs = Inr ((g', ld', sd'), vs')"
  shows "ld' = ld \<and> g' = g \<and> sd' = sd"
  using assms
  by (auto simp: denoise_adversary_def bindB_Inr_iff returnB_Inr_iff split: if_splits)

lemma gated_denoise_denoise_not_training:
  assumes "gated_denoise_denoise P \<theta> outer f F opts False n noisy orig ld sd vs = Inr ((c, ld', sd'), vs')"
  shows "ld' = ld"
  using assms
  by (auto simp: gated_denoise_denoise_def Let_def bindB_Inr_iff returnB_Inr_iff
      denoise_sim_not_training dest!: denoise_adversary_not_training split: if_splits)

lemma gated_denoise_gate_not_training:
  assumes "gated_denoise_gate P \<theta> outer images f F False n ld sd vs = Inr ((out, ld', sd'), vs')"
  shows "ld' = ld"
  using assms
  by (auto simp: gated_denoise_gate_def Let_def bindB_Inr_iff returnB_Inr_iff split: if_splits)

lemma gated_denoise_Inr_iff:
  "gated_denoise P \<theta> outer images F training n vs = Inr ((out, ld, sd), vs') \<longleftrightarrow>
   (\<exists>filtered sd1 w1 cand ld2 sd2 w2 sd3.
      gated_denoise_filter P \<theta> outer images F training n
        (image_summaries ''prefiltered_noisy_images'' ''prefiltered_clean_images'' images training n Map.empty) vs
        = Inr ((filtered, sd1), w1) \<and>
      gated_denoise_denoise P \<theta> outer filtered F
        \<lparr>gf_dim = FLAGS_ngf F, df_dim = FLAGS_ndf F, output_c_dim = 3, is_training = training\<rparr>
        training n (if training then Some (slice_to n images) else None)
        (if training then Some (slice_from n images) else None) Map.empty sd1 w1
        = Inr ((cand, ld2, sd2), w2) \<and>
      gated_denoise_gate P \<theta> outer images cand F training n ld2 sd2 w2 = Inr ((out, ld, sd3), vs') \<and>
      sd = image_summaries ''preprocessed_noisy_images'' ''preprocessed_clean_images'' out training n sd3)"
  unfolding gated_denoise_def Let_def
  by (auto simp: bindB_Inr_iff returnB_Inr_iff)

text \<open>
  C9.  Whenever \<open>gated_denoise\<close> builds with \<open>is_training = False\<close>, whatever the flags,
  the losses dictionary it returns is empty: every loss term is inserted under
  \<open>is_training\<close> only.
\<close>

theorem gated_denoise_losses_empty_in_evaluation:
  assumes "gated_denoise P \<theta> outer images F False noisy_batch_size vs = Inr ((out, losses_dict, summaries_dict), vs')"
  shows "losses_dict = Map.empty"
proof -
  from assms obtain filtered sd1 w1 cand ld2 sd2 w2 sd3 where
    d: "gated_denoise_denoise P \<theta> outer filtered F
        \<lparr>gf_dim = FLAGS_ngf F, df_dim = FLAGS_ndf F, output_c_dim = 3, is_training = False\<rparr>
        False noisy_batch_size None None Map.empty sd1 w1 = Inr ((cand, ld2, sd2), w2)" and
    g: "gated_denoise_gate P \<theta> outer images cand F False noisy_batch_size ld2 sd2 w2
          = Inr ((out, losses_dict, sd3), vs')"
    unfolding gated_denoise_Inr_iff by auto
  from gated_denoise_denoise_not_training [OF d] have "ld2 = Map.empty" .
  with gated_denoise_gate_not_training [OF g] show ?thesis by simp
qed

text \<open>Evaluating the pipeline with ops.py's stand-in, on two one-pixel images.\<close>

lemma input_discrim_run:
  "discriminator shape_ops (\<lambda>_. [0]) (variable_scope root_scope ''input_discrim'')
     [[[[0]]], [[[1]]]] 1 3 1 False ''discriminator'' []
   = Inr ([[[[0]]], [[[0]]]],
       [''input_discrim/discriminator/d_h0_conv/weights'', ''input_discrim/discriminator/d_h1_conv/weights'',
        ''input_discrim/discriminator/d_bn1/scale'', ''input_discrim/discriminator/d_bn1/offset'',
        ''input_discrim/discriminator/d_h2_conv/weights'', ''input_discrim/discriminator/d_bn2/scale'',
        ''input_discrim/discriminator/d_bn2/offset'', ''input_discrim/discriminator/d_h3_pred/weights''])"
  by code_simp

lemmas run_simps =
  gated_denoise_def gated_denoise_filter_def gated_denoise_denoise_def
  gated_denoise_gate_def default_flags_def Let_def bindB_def returnB_def liftB_def
  d_in_loss_of_def sce_criterion_def sigmoid_cross_entropy_with_logits_def bindE_def
  slice_from_def slice_to_def ones_like_def zeros_like_def ew1_def ew2_def bc_def
  dims_def batch_def height_def width_def channels_def len_hd_def reduce_mean_def mean_def
  reduce_mean_123_def blend_def tf_mul32_def tf_add32_def tf_mul_def tf_add_def expand_dims3_def

theorem gated_denoise_losses_empty_in_evaluation_witness:
  "\<exists>out summaries_dict vs'.
     gated_denoise shape_ops (\<lambda>_. [0]) root_scope [[[[0]]], [[[1]]]]
       (default_flags\<lparr>FLAGS_discrim := True, FLAGS_ndf := 1\<rparr>) False 1 []
     = Inr ((out, Map.empty, summaries_dict), vs')"
proof -
  have "\<exists>r. gated_denoise shape_ops (\<lambda>_. [0]) root_scope [[[[0]]], [[[1]]]]
       (default_flags\<lparr>FLAGS_discrim := True, FLAGS_ndf := 1\<rparr>) False 1 [] = Inr r"
    by (simp add: run_simps input_discrim_run)
  then obtain out ld sd vs' where
    r: "gated_denoise shape_ops (\<lambda>_. [0]) root_scope [[[[0]]], [[[1]]]]
       (default_flags\<lparr>FLAGS_discrim := True, FLAGS_ndf := 1\<rparr>) False 1 [] = Inr ((out, ld, sd), vs')"
    by (metis prod.exhaust)
  from gated_denoise_losses_empty_in_evaluation [OF r] r show ?thesis by blast
qed

text \<open>
  C10.  With average filtering, denoising and input gating all disabled,
  \<open>gated_denoise\<close> returns its image batch unchanged and an empty losses dictionary, and
  creates no variable.
\<close>

theorem gated_denoise_identity:
  assumes "\<not> FLAGS_average_filter F" and "\<not> FLAGS_denoise F" and "\<not> FLAGS_discrim F"
  shows "\<exists>summaries_dict.
     gated_denoise P \<theta> outer images F training noisy_batch_size vs
       = Inr ((images, Map.empty, summaries_dict), vs)"
  using assms
  by (simp add: gated_denoise_def gated_denoise_filter_def gated_denoise_denoise_def
      gated_denoise_gate_def Let_def bindB_def returnB_def)

theorem gated_denoise_identity_witness:
  "\<not> FLAGS_average_filter default_flags \<and> \<not> FLAGS_denoise default_flags \<and>
   \<not> FLAGS_discrim default_flags \<and>
   (\<exists>summaries_dict.
      gated_denoise shape_ops (\<lambda>_. [0]) root_scope [[[[0]]], [[[1]]]] default_flags True 1 []
        = Inr (([[[[0]]], [[[1]]]], Map.empty, summaries_dict), []))"
  using gated_denoise_identity [of default_flags shape_ops "\<lambda>_. [0]" root_scope
      "[[[[0]]], [[[1]]]]" True 1 "[]"]
  by (simp add: default_flags_def)

subsection \<open>The input gate\<close>




































subsection \<open>The noise injector\<close>

lemma summary_of_first_None: "summary_of_first (map (\<lambda>_. None) xs) \<noteq> Inr u"
  by (cases xs) (simp_all add: summary_of_first_def)

lemma bindE_Inl: "bindE (Inl e) f = Inl e"
  by (simp add: bindE_def)

lemma bindE_not_Inr: "(\<And>x. f x \<noteq> Inr r) \<Longrightarrow> bindE m f \<noteq> Inr r"
  by (cases m) (simp_all add: bindE_def)

text \<open>
  C6. The snow mode of the noise injector returns no image batch: \<open>get_snow_image\<close> computes
  the number of snow balls and two random index vectors and ends without a \<open>return\<close>, so
  its value is \<open>None\<close> for every image and sparsity, and \<open>add_noise\<close> with \<open>FLAGS.snow\<close> set
  never returns: \<open>tf.summary.image\<close> is called on the first element of a list of \<open>None\<close>
  (or of the empty list).  The low-resolution mode fails as well, on the unbound name
  \<open>groundtruth_boxes_list\<close>.
\<close>
theorem add_noise_snow_fails:
  "get_snow_image img sparsity = None \<and>
   add_noise (F\<lparr>FLAGS_snow := True\<rparr>) uniform_draws normal_draws images \<noteq> Inr noisy_images \<and>
   add_noise (default_flags\<lparr>FLAGS_snow := True\<rparr>) uniform_draws normal_draws (img # images)
     = Inl ValueError \<and>
   add_noise (default_flags\<lparr>FLAGS_lowres := True\<rparr>) uniform_draws normal_draws images
     = Inl NameError"
proof -
  have 1: "get_snow_image img sparsity = None" by (simp add: get_snow_image_def)
  have 2: "add_noise (F\<lparr>FLAGS_snow := True\<rparr>) uniform_draws normal_draws images \<noteq> Inr noisy_images"
    unfolding add_noise_def
    by (intro bindE_not_Inr)
      (simp add: get_snow_image_def bindE_def Let_def summary_of_first_None split: sum.splits)
  have 3: "add_noise (default_flags\<lparr>FLAGS_snow := True\<rparr>) uniform_draws normal_draws (img # images)
     = Inl ValueError"
    by (simp add: add_noise_def default_flags_def bindE_def get_snow_image_def summary_of_first_def)
  have 4: "add_noise (default_flags\<lparr>FLAGS_lowres := True\<rparr>) uniform_draws normal_draws images
     = Inl NameError"
    by (simp add: add_noise_def default_flags_def bindE_def)
  from 1 2 3 4 show ?thesis by blast
qed







end
